theory Spec2Isabelle
  imports Main
begin

section \<open>Python values, exceptions and outcomes\<close>

text \<open>
  A Python \<open>str\<close> is a sequence of Unicode code points (lone surrogates included), so
  strings are lists of code points here; \<open>ascii\<close> embeds an ASCII literal. The only
  values the agents handle are strings and \<open>None\<close>.
\<close>

type_synonym codepoint = nat
type_synonym ustring = "codepoint list"
type_synonym byte = nat

definition ascii :: "string \<Rightarrow> ustring" where
  "ascii s = map of_char s"

datatype py_val = PyNone | PyStr ustring

text \<open>\<open>str(v)\<close>, which is also what an f-string and \<open>format(v, '')\<close> render.\<close>

fun py_str :: "py_val \<Rightarrow> ustring" where
  "py_str PyNone = ascii ''None''"
| "py_str (PyStr s) = s"

text \<open>Truthiness (\<open>bool(v)\<close>, \<open>not v\<close>, \<open>a or b\<close>): \<open>None\<close> and the empty string are false.\<close>

fun py_bool :: "py_val \<Rightarrow> bool" where
  "py_bool PyNone = False"
| "py_bool (PyStr s) = (s \<noteq> [])"

definition py_or :: "py_val \<Rightarrow> py_val \<Rightarrow> py_val" where
  "py_or a b = (if py_bool a then a else b)"

text \<open>How an f-string renders a \<open>bool\<close>.\<close>

definition bool_str :: "bool \<Rightarrow> ustring" where
  "bool_str b = (if b then ascii ''True'' else ascii ''False'')"

text \<open>
  The exceptions that occur: those of the language and of the template formatter, the
  \<open>RuntimeError\<close> of \<open>Agent.__init__\<close> with its message, and the errors the OpenAI client
  raises for a failed request (connection, authentication, other status, malformed
  response). \<open>KeyboardInterrupt\<close> stands for the exceptions that do not derive from
  \<open>Exception\<close>, which \<open>except Exception\<close> lets through.
\<close>

datatype exception =
    KeyError py_val
  | ValueError
  | IndexError
  | AttributeError
  | UnicodeEncodeError
  | RuntimeError ustring
  | APIConnectionError ustring
  | AuthenticationError ustring
  | APIStatusError nat ustring
  | APIResponseValidationError ustring
  | KeyboardInterrupt

fun is_Exception :: "exception \<Rightarrow> bool" where
  "is_Exception KeyboardInterrupt = False"
| "is_Exception _ = True"

text \<open>
  What evaluating a piece of Python gives: a value, or an exception. \<open>Unmodelled\<close> marks
  the inputs on which this development does not say what Python does (replacement
  fields that need the object protocol, see \<open>format_field\<close>); nothing is claimed there.
\<close>

datatype 'a outcome = Returns 'a | Raises exception | Unmodelled

fun bind :: "'a outcome \<Rightarrow> ('a \<Rightarrow> 'b outcome) \<Rightarrow> 'b outcome" where
  "bind (Returns x) f = f x"
| "bind (Raises e) f = Raises e"
| "bind Unmodelled f = Unmodelled"

text \<open>\<open>try: body  except Exception: handler\<close>.\<close>

fun try_except :: "'a outcome \<Rightarrow> (exception \<Rightarrow> 'a outcome) \<Rightarrow> 'a outcome" where
  "try_except (Returns x) h = Returns x"
| "try_except (Raises e) h = (if is_Exception e then h e else Raises e)"
| "try_except Unmodelled h = Unmodelled"

section \<open>The process environment\<close>

type_synonym environ = "ustring \<rightharpoonup> ustring"

text \<open>\<open>os.getenv(key)\<close> and \<open>os.getenv(key, default)\<close>.\<close>

definition getenv :: "environ \<Rightarrow> ustring \<Rightarrow> py_val" where
  "getenv env key = (case env key of None \<Rightarrow> PyNone | Some v \<Rightarrow> PyStr v)"

definition getenv_default :: "environ \<Rightarrow> ustring \<Rightarrow> ustring \<Rightarrow> ustring" where
  "getenv_default env key dflt = (case env key of None \<Rightarrow> dflt | Some v \<Rightarrow> v)"

section \<open>Format-string templates\<close>

text \<open>
  \<open>PromptTemplate.from_template\<close> and \<open>PromptTemplate.format\<close> come from the library
  \<open>langchain_core\<close>; with the default template format they are Python's
  \<open>string.Formatter\<close>: \<open>parse\<close> splits a format string into literal text and
  replacement fields, \<open>vformat\<close> looks each field up among the keyword arguments.
  The lexical grammar is modelled whole: \<open>{{\<close> and \<open>}}\<close> are escapes, a field is
  \<open>{name}\<close>, \<open>{name!c}\<close>, \<open>{name:spec}\<close> or \<open>{name!c:spec}\<close>, braces nest inside a
  format spec, and a malformed string raises \<open>ValueError\<close>.
\<close>

abbreviation (input) LBRACE :: codepoint where "LBRACE \<equiv> 0x7B"
abbreviation (input) RBRACE :: codepoint where "RBRACE \<equiv> 0x7D"
abbreviation (input) LBRACKET :: codepoint where "LBRACKET \<equiv> 0x5B"
abbreviation (input) RBRACKET :: codepoint where "RBRACKET \<equiv> 0x5D"
abbreviation (input) COLON :: codepoint where "COLON \<equiv> 0x3A"
abbreviation (input) BANG :: codepoint where "BANG \<equiv> 0x21"
abbreviation (input) DOT :: codepoint where "DOT \<equiv> 0x2E"

datatype field = Field (field_name: ustring) (format_spec: ustring) (conversion: "codepoint option")

text \<open>One tuple \<open>(literal_text, field_name, format_spec, conversion)\<close> of \<open>Formatter.parse\<close>;
  the last three are \<open>None\<close> together when no field follows the literal.\<close>

type_synonym parsed = "ustring \<times> field option"

definition not_brace :: "codepoint \<Rightarrow> bool" where
  "not_brace c = (c \<noteq> LBRACE \<and> c \<noteq> RBRACE)"

text \<open>
  The field name runs up to \<open>}\<close>, \<open>:\<close> or \<open>!\<close>; the result holds the name, the
  terminator and the rest. An index in brackets is outside the model.
\<close>

fun scan_field_name :: "ustring \<Rightarrow> (ustring \<times> codepoint \<times> ustring) outcome" where
  "scan_field_name [] = Raises ValueError"
| "scan_field_name (c # cs) =
     (if c = LBRACE then Raises ValueError
      else if c = LBRACKET then Unmodelled
      else if c = RBRACE \<or> c = COLON \<or> c = BANG then Returns ([], c, cs)
      else bind (scan_field_name cs) (\<lambda>(name, t, rest). Returns (c # name, t, rest)))"

text \<open>The format spec runs up to the \<open>}\<close> that closes the field; \<open>n\<close> counts the open braces.\<close>

fun scan_format_spec :: "nat \<Rightarrow> ustring \<Rightarrow> (ustring \<times> ustring) outcome" where
  "scan_format_spec n [] = Raises ValueError"
| "scan_format_spec n (c # cs) =
     (if c = LBRACE then
        bind (scan_format_spec (Suc n) cs) (\<lambda>(spec, rest). Returns (c # spec, rest))
      else if c = RBRACE then
        (if n = 1 then Returns ([], cs)
         else bind (scan_format_spec (n - 1) cs) (\<lambda>(spec, rest). Returns (c # spec, rest)))
      else bind (scan_format_spec n cs) (\<lambda>(spec, rest). Returns (c # spec, rest)))"

text \<open>A replacement field, read from just after its opening brace.\<close>

definition parse_field :: "ustring \<Rightarrow> (field \<times> ustring) outcome" where
  "parse_field s =
     bind (scan_field_name s) (\<lambda>(name, t, rest).
       if t = RBRACE then Returns (Field name [] None, rest)
       else if t = BANG then
         (case rest of
            [] \<Rightarrow> Raises ValueError
          | conv # r1 \<Rightarrow>
              (case r1 of
                 [] \<Rightarrow> Raises ValueError
               | d # r2 \<Rightarrow>
                   if d = RBRACE then Returns (Field name [] (Some conv), r2)
                   else if d \<noteq> COLON then Raises ValueError
                   else bind (scan_format_spec 1 r2) (\<lambda>(spec, r3).
                          Returns (Field name spec (Some conv), r3))))
       else bind (scan_format_spec 1 rest) (\<lambda>(spec, r3). Returns (Field name spec None, r3)))"

lemma bind_Returns_iff:
  "(bind m f = Returns y) = (\<exists>x. m = Returns x \<and> f x = Returns y)"
  by (cases m) auto


lemma scan_field_name_shorter:
  "scan_field_name s = Returns (name, t, rest) \<Longrightarrow> length rest < length s"
proof (induction s arbitrary: name)
  case Nil
  then show ?case by simp
next
  case (Cons c cs)
  from Cons.prems show ?case
    by (auto simp: bind_Returns_iff split: if_splits dest: Cons.IH)
qed

lemma scan_format_spec_shorter:
  "scan_format_spec n s = Returns (spec, rest) \<Longrightarrow> length rest < length s"
proof (induction s arbitrary: n spec)
  case Nil
  then show ?case by simp
next
  case (Cons c cs)
  from Cons.prems show ?case
    by (auto simp: bind_Returns_iff split: if_splits dest: Cons.IH)
qed

lemma parse_field_shorter:
  "parse_field s = Returns (fld, rest) \<Longrightarrow> length rest < length s"
  unfolding parse_field_def
  by (auto simp: bind_Returns_iff split: if_splits list.splits
      dest!: scan_field_name_shorter scan_format_spec_shorter)

text \<open>
  \<open>Formatter.parse\<close>: literal text up to the next brace; a doubled brace is an escape
  and ends the tuple with that brace as literal text; a single \<open>}\<close>, or a \<open>{\<close> at the
  end of the string, is an error; any other \<open>{\<close> opens a field.
\<close>

function parse :: "ustring \<Rightarrow> parsed list outcome" where
  "parse [] = Returns []"
| "parse (c # cs) =
     (let literal = takeWhile not_brace (c # cs) in
      case dropWhile not_brace (c # cs) of
        [] \<Rightarrow> Returns [(literal, None)]
      | b # r \<Rightarrow>
          (case r of
             [] \<Rightarrow> Raises ValueError
           | d # r' \<Rightarrow>
               if d = b then
                 bind (parse r') (\<lambda>ps. Returns ((literal @ [b], None) # ps))
               else if b = RBRACE then Raises ValueError
               else
                 (case parse_field r of
                    Returns (fld, r'') \<Rightarrow>
                      bind (parse r'') (\<lambda>ps. Returns ((literal, Some fld) # ps))
                  | Raises e \<Rightarrow> Raises e
                  | Unmodelled \<Rightarrow> Unmodelled)))"
  by pat_completeness auto
termination
proof (relation "measure length")
  show "wf (measure length)" by simp
next
  fix c cs x b r d r'
  assume "dropWhile not_brace (c # cs) = b # r" and "r = d # r'"
  then have "length (dropWhile not_brace (c # cs)) = Suc (Suc (length r'))" by simp
  moreover have "length (dropWhile not_brace (c # cs)) \<le> length (c # cs)"
    by (rule length_dropWhile_le)
  ultimately show "(r', c # cs) \<in> measure length" by simp
next
  fix c cs x b r d r' y fld r''
  assume dw: "dropWhile not_brace (c # cs) = b # r" and "parse_field r = Returns y"
    and "(fld, r'') = y"
  then have "length r'' < length r" by (auto dest: parse_field_shorter)
  moreover have "length (dropWhile not_brace (c # cs)) \<le> length (c # cs)"
    by (rule length_dropWhile_le)
  ultimately show "(r'', c # cs) \<in> measure length" using dw by simp
qed


text \<open>
  Looking a field up needs Python's object protocol as soon as the name holds an
  attribute or an index (\<open>a.b\<close>, \<open>a[0]\<close>) or is a number (a positional argument; the
  library's newer versions refuse these names when the template is built, the older
  ones when it is rendered). Such names are outside the model.
\<close>

definition outside_model_name :: "ustring \<Rightarrow> bool" where
  "outside_model_name name =
     (list_ex (\<lambda>c. c = DOT \<or> c = LBRACKET \<or> c = RBRACKET) name \<or>
      (name \<noteq> [] \<and> list_all (\<lambda>c. (0x30 \<le> c \<and> c \<le> 0x39) \<or> 0x80 \<le> c) name))"

text \<open>
  A \<open>PromptTemplate\<close>: the template string (its other attributes are derived from it
  and never read by the agents).
\<close>

record prompt_template =
  template :: ustring

definition PromptTemplate_from_template :: "ustring \<Rightarrow> prompt_template outcome" where
  "PromptTemplate_from_template t =
     bind (parse t) (\<lambda>ps.
       if list_ex (\<lambda>(literal, f). case f of None \<Rightarrow> False
                                     | Some fld \<Rightarrow> outside_model_name (field_name fld)) ps
       then Unmodelled
       else Returns \<lparr>template = t\<rparr>)"

text \<open>
  One replacement field rendered (\<open>get_field\<close>, \<open>convert_field\<close>, \<open>format_field\<close> of
  \<open>Formatter\<close>, in that order): an empty name is the positional argument 0, and there are
  no positional arguments; a name that is no keyword raises \<open>KeyError\<close> before the
  conversion and the format spec are looked at; a keyword with neither renders as
  \<open>str\<close> of its value. A conversion or a format spec applied to a value is outside the
  model.
\<close>

definition format_field :: "(ustring \<rightharpoonup> py_val) \<Rightarrow> field \<Rightarrow> ustring outcome" where
  "format_field kwargs fld =
     (if field_name fld = [] then Raises IndexError
      else if outside_model_name (field_name fld) then Unmodelled
      else case kwargs (field_name fld) of
             None \<Rightarrow> Raises (KeyError (PyStr (field_name fld)))
           | Some v \<Rightarrow>
               if conversion fld = None \<and> format_spec fld = [] then Returns (py_str v)
               else Unmodelled)"

fun vformat :: "parsed list \<Rightarrow> (ustring \<rightharpoonup> py_val) \<Rightarrow> ustring outcome" where
  "vformat [] kwargs = Returns []"
| "vformat ((literal, None) # ps) kwargs =
     bind (vformat ps kwargs) (\<lambda>rest. Returns (literal @ rest))"
| "vformat ((literal, Some fld) # ps) kwargs =
     bind (format_field kwargs fld) (\<lambda>v.
       bind (vformat ps kwargs) (\<lambda>rest. Returns (literal @ v @ rest)))"

text \<open>\<open>PromptTemplate.format(**kwargs)\<close>; keyword arguments the template does not use are ignored.\<close>

definition PromptTemplate_format :: "prompt_template \<Rightarrow> (ustring \<rightharpoonup> py_val) \<Rightarrow> ustring outcome" where
  "PromptTemplate_format pt kwargs = bind (parse (template pt)) (\<lambda>ps. vformat ps kwargs)"

section \<open>The templates of \<open>Agent.create_prompt_template\<close>\<close>

definition team_intro :: ustring where
  "team_intro = concat
    [ascii ''\<newline>'',
     ascii ''                Act like a multidisciplinary team of healthcare professionals.\<newline>'',
     ascii ''                You will receive a medical report of a patient visited by a Cardiologist, Psychologist, and Pulmonologist.\<newline>'',
     ascii ''                Task: Review the patient's medical report from the Cardiologist, Psychologist, and Pulmonologist, analyze them and come up with a list of 3 possible health issues of the patient.\<newline>'',
     ascii ''                Just return a list of bullet points of 3 possible health issues of the patient and for each issue provide the reason.\<newline>'',
     ascii ''                \<newline>'',
     ascii ''                Cardiologist Report: '']"

definition team_psychologist_label :: ustring where
  "team_psychologist_label = concat
    [ascii ''\<newline>'',
     ascii ''                Psychologist Report: '']"

definition team_pulmonologist_label :: ustring where
  "team_pulmonologist_label = concat
    [ascii ''\<newline>'',
     ascii ''                Pulmonologist Report: '']"

definition team_outro :: ustring where
  "team_outro = concat
    [ascii ''\<newline>'',
     ascii ''            '']"

definition Cardiologist_template :: ustring where
  "Cardiologist_template = concat
    [ascii ''\<newline>'',
     ascii ''                    Act like a cardiologist. You will receive a medical report of a patient.\<newline>'',
     ascii ''                    Task: Review the patient's cardiac workup, including ECG, blood tests, Holter monitor results, and echocardiogram.\<newline>'',
     ascii ''                    Focus: Determine if there are any subtle signs of cardiac issues that could explain the patient'',
     [0x2019],
     ascii ''s symptoms. Rule out any underlying heart conditions, such as arrhythmias or structural abnormalities, that might be missed on routine testing.\<newline>'',
     ascii ''                    Recommendation: Provide guidance on any further cardiac testing or monitoring needed to ensure there are no hidden heart-related concerns. Suggest potential management strategies if a cardiac issue is identified.\<newline>'',
     ascii ''                    Please only return the possible causes of the patient's symptoms and the recommended next steps.\<newline>'',
     ascii ''                    Medical Report: {medical_report}\<newline>'',
     ascii ''                '']"

definition Psychologist_template :: ustring where
  "Psychologist_template = concat
    [ascii ''\<newline>'',
     ascii ''                    Act like a psychologist. You will receive a patient's report.\<newline>'',
     ascii ''                    Task: Review the patient's report and provide a psychological assessment.\<newline>'',
     ascii ''                    Focus: Identify any potential mental health issues, such as anxiety, depression, or trauma, that may be affecting the patient's well-being.\<newline>'',
     ascii ''                    Recommendation: Offer guidance on how to address these mental health concerns, including therapy, counseling, or other interventions.\<newline>'',
     ascii ''                    Please only return the possible mental health issues and the recommended next steps.\<newline>'',
     ascii ''                    Patient's Report: {medical_report}\<newline>'',
     ascii ''                '']"

definition Pulmonologist_template :: ustring where
  "Pulmonologist_template = concat
    [ascii ''\<newline>'',
     ascii ''                    Act like a pulmonologist. You will receive a patient's report.\<newline>'',
     ascii ''                    Task: Review the patient's report and provide a pulmonary assessment.\<newline>'',
     ascii ''                    Focus: Identify any potential respiratory issues, such as asthma, COPD, or lung infections, that may be affecting the patient's breathing.\<newline>'',
     ascii ''                    Recommendation: Offer guidance on how to address these respiratory concerns, including pulmonary function tests, imaging studies, or other interventions.\<newline>'',
     ascii ''                    Please only return the possible respiratory issues and the recommended next steps.\<newline>'',
     ascii ''                    Patient's Report: {medical_report}\<newline>'',
     ascii ''                '']"

definition specialist_templates :: "py_val \<rightharpoonup> ustring" where
  "specialist_templates =
     [PyStr (ascii ''Cardiologist'') \<mapsto> Cardiologist_template,
      PyStr (ascii ''Psychologist'') \<mapsto> Psychologist_template,
      PyStr (ascii ''Pulmonologist'') \<mapsto> Pulmonologist_template]"

text \<open>\<open>d.get(key, default)\<close>.\<close>

definition dict_get :: "(ustring \<rightharpoonup> py_val) \<Rightarrow> ustring \<Rightarrow> py_val \<Rightarrow> py_val" where
  "dict_get d key dflt = (case d key of None \<Rightarrow> dflt | Some v \<Rightarrow> v)"

text \<open>
  For the team the three reports are put into the text by an f-string, and the result
  is then handed to \<open>from_template\<close> as a template; for the other roles the template
  is looked up in a dictionary by role.
\<close>

definition create_prompt_template ::
    "py_val \<Rightarrow> (ustring \<rightharpoonup> py_val) option \<Rightarrow> prompt_template outcome" where
  "create_prompt_template role extra_info =
     bind
       (if role = PyStr (ascii ''MultidisciplinaryTeam'') then
          (case extra_info of
             None \<Rightarrow> Raises AttributeError
           | Some info \<Rightarrow>
               Returns
                 (team_intro
                    @ py_str (dict_get info (ascii ''cardiologist_report'') (PyStr []))
                    @ team_psychologist_label
                    @ py_str (dict_get info (ascii ''psychologist_report'') (PyStr []))
                    @ team_pulmonologist_label
                    @ py_str (dict_get info (ascii ''pulmonologist_report'') (PyStr []))
                    @ team_outro))
        else
          (case specialist_templates role of
             None \<Rightarrow> Raises (KeyError role)
           | Some t \<Rightarrow> Returns t))
       PromptTemplate_from_template"

section \<open>Agents\<close>

record client =
  base_url :: ustring
  api_key :: py_val

record agent =
  medical_report :: py_val
  role :: py_val
  extra_info :: "(ustring \<rightharpoonup> py_val) option"
  prompt_template :: prompt_template
  client :: client

text \<open>\<open>Agent.__init__\<close>: the template first, then the API key from the environment.\<close>

definition Agent_init ::
    "environ \<Rightarrow> py_val \<Rightarrow> py_val \<Rightarrow> (ustring \<rightharpoonup> py_val) option \<Rightarrow> agent outcome" where
  "Agent_init env report rl extra =
     bind (create_prompt_template rl extra) (\<lambda>pt.
       let openrouter_present = py_bool (getenv env (ascii ''OPENROUTER_API_KEY''));
           openai_present = py_bool (getenv env (ascii ''OPENAI_API_KEY''));
           key = py_or (getenv env (ascii ''OPENROUTER_API_KEY''))
                       (getenv env (ascii ''OPENAI_API_KEY''))
       in if \<not> py_bool key then
            Raises (RuntimeError
              (ascii ''No API key found. Environment presence: OPENROUTER_API_KEY=''
                 @ bool_str openrouter_present @ ascii '', OPENAI_API_KEY=''
                 @ bool_str openai_present @ ascii ''. ''
                 @ ascii ''Please set OPENROUTER_API_KEY or OPENAI_API_KEY environment variable (do not paste the key into code).''))
          else
            Returns \<lparr>medical_report = report, role = rl, extra_info = extra,
                     prompt_template = pt,
                     client = \<lparr>base_url = ascii ''https://openrouter.ai/api/v1'', api_key = key\<rparr>\<rparr>)"

definition Cardiologist :: "environ \<Rightarrow> py_val \<Rightarrow> agent outcome" where
  "Cardiologist env report = Agent_init env report (PyStr (ascii ''Cardiologist'')) None"

definition Psychologist :: "environ \<Rightarrow> py_val \<Rightarrow> agent outcome" where
  "Psychologist env report = Agent_init env report (PyStr (ascii ''Psychologist'')) None"

definition Pulmonologist :: "environ \<Rightarrow> py_val \<Rightarrow> agent outcome" where
  "Pulmonologist env report = Agent_init env report (PyStr (ascii ''Pulmonologist'')) None"

definition MultidisciplinaryTeam :: "environ \<Rightarrow> py_val \<Rightarrow> py_val \<Rightarrow> py_val \<Rightarrow> agent outcome" where
  "MultidisciplinaryTeam env cardiologist_report psychologist_report pulmonologist_report =
     Agent_init env PyNone (PyStr (ascii ''MultidisciplinaryTeam''))
       (Some [ascii ''cardiologist_report'' \<mapsto> cardiologist_report,
              ascii ''psychologist_report'' \<mapsto> psychologist_report,
              ascii ''pulmonologist_report'' \<mapsto> pulmonologist_report])"


section \<open>Text encodings\<close>

text \<open>
  \<open>str.encode(encoding, errors)\<close> and \<open>bytes.decode(encoding, errors)\<close> for the codecs
  the standard output of the program can have: UTF-8, which the module sets at import
  and falls back to, and the single-byte ASCII, Latin-1 and Windows-1252 (cp1252, the
  one the module's comment names). Bytes are numbers below 256.
\<close>

datatype encoding = UTF8 | ASCII | Latin1 | CP1252

datatype errors = Strict | Replace

text \<open>UTF-8 has no encoding for the surrogates U+D800..U+DFFF.\<close>

definition utf8_encode_char :: "codepoint \<Rightarrow> byte list option" where
  "utf8_encode_char c =
     (if c < 0x80 then Some [c]
      else if c < 0x800 then Some [0xC0 + c div 64, 0x80 + c mod 64]
      else if c < 0x10000 then
        (if 0xD800 \<le> c \<and> c \<le> 0xDFFF then None
         else Some [0xE0 + c div 4096, 0x80 + c div 64 mod 64, 0x80 + c mod 64])
      else if c < 0x110000 then
        Some [0xF0 + c div 262144, 0x80 + c div 4096 mod 64, 0x80 + c div 64 mod 64,
              0x80 + c mod 64]
      else None)"

text \<open>The bytes 0x80..0x9F of cp1252; 0x81, 0x8D, 0x8F, 0x90 and 0x9D are not assigned.\<close>

definition cp1252_high :: "(byte \<times> codepoint) list" where
  "cp1252_high =
     [(0x80, 0x20AC), (0x82, 0x201A), (0x83, 0x0192), (0x84, 0x201E), (0x85, 0x2026),
      (0x86, 0x2020), (0x87, 0x2021), (0x88, 0x02C6), (0x89, 0x2030), (0x8A, 0x0160),
      (0x8B, 0x2039), (0x8C, 0x0152), (0x8E, 0x017D), (0x91, 0x2018), (0x92, 0x2019),
      (0x93, 0x201C), (0x94, 0x201D), (0x95, 0x2022), (0x96, 0x2013), (0x97, 0x2014),
      (0x98, 0x02DC), (0x99, 0x2122), (0x9A, 0x0161), (0x9B, 0x203A), (0x9C, 0x0153),
      (0x9E, 0x017E), (0x9F, 0x0178)]"

definition cp1252_encode_char :: "codepoint \<Rightarrow> byte list option" where
  "cp1252_encode_char c =
     (if c < 0x80 \<or> (0xA0 \<le> c \<and> c < 0x100) then Some [c]
      else map_option (\<lambda>b. [b]) (map_of (map (\<lambda>(b, u). (u, b)) cp1252_high) c))"

fun encode_char :: "encoding \<Rightarrow> codepoint \<Rightarrow> byte list option" where
  "encode_char UTF8 c = utf8_encode_char c"
| "encode_char ASCII c = (if c < 0x80 then Some [c] else None)"
| "encode_char Latin1 c = (if c < 0x100 then Some [c] else None)"
| "encode_char CP1252 c = cp1252_encode_char c"

text \<open>
  Encoding a string: with \<open>errors='strict'\<close> a code point the codec cannot encode raises
  \<open>UnicodeEncodeError\<close>, with \<open>errors='replace'\<close> it is encoded as \<open>?\<close>.
\<close>

fun encode :: "encoding \<Rightarrow> errors \<Rightarrow> ustring \<Rightarrow> byte list outcome" where
  "encode enc errs [] = Returns []"
| "encode enc errs (c # cs) =
     (case encode_char enc c of
        Some bs \<Rightarrow> bind (encode enc errs cs) (\<lambda>rest. Returns (bs @ rest))
      | None \<Rightarrow>
          (case errs of
             Strict \<Rightarrow> Raises UnicodeEncodeError
           | Replace \<Rightarrow> bind (encode enc errs cs) (\<lambda>rest. Returns (0x3F # rest))))"

text \<open>\<open>content.encode(...)\<close>: \<open>None\<close> has no such method.\<close>

fun str_encode :: "py_val \<Rightarrow> encoding \<Rightarrow> errors \<Rightarrow> byte list outcome" where
  "str_encode PyNone enc errs = Raises AttributeError"
| "str_encode (PyStr s) enc errs = encode enc errs s"

definition is_cont :: "byte \<Rightarrow> bool" where
  "is_cont b = (0x80 \<le> b \<and> b \<le> 0xBF)"

text \<open>The second byte of a three-byte and of a four-byte sequence, by its first byte
  (no overlong forms, no surrogates, nothing above U+10FFFF).\<close>

definition second_of_3 :: "byte \<Rightarrow> byte \<Rightarrow> bool" where
  "second_of_3 b0 b1 =
     (if b0 = 0xE0 then 0xA0 \<le> b1 \<and> b1 \<le> 0xBF
      else if b0 = 0xED then 0x80 \<le> b1 \<and> b1 \<le> 0x9F
      else is_cont b1)"

definition second_of_4 :: "byte \<Rightarrow> byte \<Rightarrow> bool" where
  "second_of_4 b0 b1 =
     (if b0 = 0xF0 then 0x90 \<le> b1 \<and> b1 \<le> 0xBF
      else if b0 = 0xF4 then 0x80 \<le> b1 \<and> b1 \<le> 0x8F
      else is_cont b1)"

text \<open>
  Decoding UTF-8 with \<open>errors='replace'\<close>: every ill-formed sequence becomes one
  U+FFFD, and decoding goes on at the first byte that did not fit.
\<close>

fun utf8_decode_replace :: "byte list \<Rightarrow> ustring" where
  "utf8_decode_replace [] = []"
| "utf8_decode_replace (b0 # bs) =
     (if b0 < 0x80 then b0 # utf8_decode_replace bs
      else if 0xC2 \<le> b0 \<and> b0 \<le> 0xDF then
        (case bs of
           [] \<Rightarrow> [0xFFFD]
         | b1 # r1 \<Rightarrow>
             if is_cont b1 then ((b0 - 0xC0) * 64 + (b1 - 0x80)) # utf8_decode_replace r1
             else 0xFFFD # utf8_decode_replace bs)
      else if 0xE0 \<le> b0 \<and> b0 \<le> 0xEF then
        (case bs of
           [] \<Rightarrow> [0xFFFD]
         | b1 # r1 \<Rightarrow>
             if \<not> second_of_3 b0 b1 then 0xFFFD # utf8_decode_replace bs
             else
               (case r1 of
                  [] \<Rightarrow> [0xFFFD]
                | b2 # r2 \<Rightarrow>
                    if is_cont b2 then
                      ((b0 - 0xE0) * 4096 + (b1 - 0x80) * 64 + (b2 - 0x80))
                        # utf8_decode_replace r2
                    else 0xFFFD # utf8_decode_replace r1))
      else if 0xF0 \<le> b0 \<and> b0 \<le> 0xF4 then
        (case bs of
           [] \<Rightarrow> [0xFFFD]
         | b1 # r1 \<Rightarrow>
             if \<not> second_of_4 b0 b1 then 0xFFFD # utf8_decode_replace bs
             else
               (case r1 of
                  [] \<Rightarrow> [0xFFFD]
                | b2 # r2 \<Rightarrow>
                    if \<not> is_cont b2 then 0xFFFD # utf8_decode_replace r1
                    else
                      (case r2 of
                         [] \<Rightarrow> [0xFFFD]
                       | b3 # r3 \<Rightarrow>
                           if is_cont b3 then
                             ((b0 - 0xF0) * 262144 + (b1 - 0x80) * 4096 + (b2 - 0x80) * 64
                                + (b3 - 0x80)) # utf8_decode_replace r3
                           else 0xFFFD # utf8_decode_replace r2)))
      else 0xFFFD # utf8_decode_replace bs)"

text \<open>The equation calls the function on every tail: it is unfolded one step at a time.\<close>

declare utf8_decode_replace.simps [simp del]

definition cp1252_decode_byte :: "byte \<Rightarrow> codepoint" where
  "cp1252_decode_byte b =
     (if b < 0x80 \<or> 0xA0 \<le> b then b
      else case map_of cp1252_high b of Some u \<Rightarrow> u | None \<Rightarrow> 0xFFFD)"

text \<open>\<open>bytes.decode(encoding, errors='replace')\<close>.\<close>

fun decode_replace :: "encoding \<Rightarrow> byte list \<Rightarrow> ustring" where
  "decode_replace UTF8 bs = utf8_decode_replace bs"
| "decode_replace ASCII bs = map (\<lambda>b. if b < 0x80 then b else 0xFFFD) bs"
| "decode_replace Latin1 bs = bs"
| "decode_replace CP1252 bs = map cp1252_decode_byte bs"

section \<open>The completion request and its response\<close>

record chat_message =
  message_role :: ustring
  message_content :: ustring

record request =
  extra_body :: "(ustring \<times> ustring) list"
  model :: ustring
  messages :: "chat_message list"

text \<open>
  The response object, as far as \<open>Agent.run\<close> looks into it: \<open>choices\<close>, the first
  choice's \<open>message.content\<close> and \<open>text\<close>, and \<open>str\<close> of the whole. An attribute may be
  missing (reading it raises \<open>AttributeError\<close>), the list of choices may be empty.
\<close>

datatype 'a attribute = Missing | Attr 'a

record message =
  content :: "py_val attribute"

record choice =
  choice_message :: "message attribute"
  choice_text :: "py_val attribute"

record completion =
  choices :: "choice list attribute"
  completion_str :: ustring

fun getattr :: "'a attribute \<Rightarrow> 'a outcome" where
  "getattr Missing = Raises AttributeError"
| "getattr (Attr v) = Returns v"

text \<open>\<open>completion.choices[0]\<close>.\<close>

definition first_choice :: "completion \<Rightarrow> choice outcome" where
  "first_choice completion =
     bind (getattr (choices completion)) (\<lambda>cs.
       case cs of [] \<Rightarrow> Raises IndexError | ch # _ \<Rightarrow> Returns ch)"

text \<open>\<open>completion.choices[0].message.content\<close> and \<open>completion.choices[0].text\<close>.\<close>

definition primary_field :: "completion \<Rightarrow> py_val outcome" where
  "primary_field completion =
     bind (first_choice completion) (\<lambda>ch.
       bind (getattr (choice_message ch)) (\<lambda>m. getattr (content m)))"

definition secondary_field :: "completion \<Rightarrow> py_val outcome" where
  "secondary_field completion =
     bind (first_choice completion) (\<lambda>ch. getattr (choice_text ch))"

text \<open>Lines 104 to 113 of \<open>Agent.run\<close>: the reply text out of the response.\<close>

definition extract_content :: "completion \<Rightarrow> py_val outcome" where
  "extract_content completion =
     try_except (primary_field completion) (\<lambda>_.
       try_except (secondary_field completion) (\<lambda>_.
         Returns (PyStr (completion_str completion))))"

text \<open>
  Lines 115 to 125 of \<open>Agent.run\<close>: the text is returned as it is when it can be encoded
  for the standard output, and with the unencodable characters replaced otherwise.
  \<open>stdout_encoding\<close> is \<open>sys.stdout.encoding\<close>, which may be \<open>None\<close>;
  \<open>encoding_or_utf8\<close> is \<open>sys.stdout.encoding or 'utf-8'\<close>.
\<close>

definition encoding_or_utf8 :: "encoding option \<Rightarrow> encoding" where
  "encoding_or_utf8 stdout_encoding = (case stdout_encoding of None \<Rightarrow> UTF8 | Some e \<Rightarrow> e)"

definition sanitize :: "encoding option \<Rightarrow> py_val \<Rightarrow> py_val outcome" where
  "sanitize stdout_encoding reply =
     (let enc = encoding_or_utf8 stdout_encoding in
      try_except
        (bind (str_encode reply enc Strict) (\<lambda>_. Returns reply))
        (\<lambda>_. bind (str_encode reply enc Replace) (\<lambda>safe.
                Returns (PyStr (decode_replace enc safe)))))"

section \<open>The standard output\<close>

text \<open>
  \<open>sys.stdout\<close> as the program sees it: the codec \<open>sys.stdout.encoding\<close> names
  (\<open>None\<close> for a stream that has no codec and takes any text, such as \<open>io.StringIO\<close>)
  and the error handler the stream encodes with. At import the module reconfigures
  the stream to UTF-8, which makes the handler strict; failing that it wraps the
  stream's buffer as UTF-8 with \<open>errors='replace'\<close>; failing that too it leaves the
  stream as it is.
\<close>

record stream =
  stream_encoding :: "encoding option"
  stream_errors :: errors

text \<open>
  \<open>sys.stdout.write(s)\<close>: the text is encoded when it is written, so a code point the
  codec cannot encode raises \<open>UnicodeEncodeError\<close> there unless the handler replaces it.
\<close>

definition stream_write :: "stream \<Rightarrow> ustring \<Rightarrow> unit outcome" where
  "stream_write stdout s =
     (case stream_encoding stdout of
        None \<Rightarrow> Returns ()
      | Some enc \<Rightarrow> bind (encode enc (stream_errors stdout) s) (\<lambda>_. Returns ()))"

text \<open>
  \<open>str(e)\<close> for the exceptions that carry their message. For the others the text is
  not modelled: for \<open>KeyError\<close> it is the \<open>repr\<close> of the key, and for the exceptions the
  interpreter raises in this program (a missing attribute, an index out of range, a
  malformed format string, an encoding error) it is one of its fixed messages, of which
  only this is used: they are ASCII.
\<close>

fun exception_str :: "exception \<Rightarrow> ustring option" where
  "exception_str (RuntimeError m) = Some m"
| "exception_str (APIConnectionError m) = Some m"
| "exception_str (AuthenticationError m) = Some m"
| "exception_str (APIStatusError status m) = Some m"
| "exception_str (APIResponseValidationError m) = Some m"
| "exception_str _ = None"

fun ascii_message :: "exception \<Rightarrow> bool" where
  "ascii_message ValueError = True"
| "ascii_message IndexError = True"
| "ascii_message AttributeError = True"
| "ascii_message UnicodeEncodeError = True"
| "ascii_message _ = False"

datatype print_arg = Text ustring | Error exception

text \<open>
  One argument of \<open>print\<close> written to the stream: \<open>str\<close> of it, encoded by the stream.
  An ASCII message is encoded by every codec here. An exception whose text is not
  modelled is outside the model on a stream that can refuse a text.
\<close>

fun write_arg :: "stream \<Rightarrow> print_arg \<Rightarrow> unit outcome" where
  "write_arg stdout (Text s) = stream_write stdout s"
| "write_arg stdout (Error e) =
     (case exception_str e of
        Some m \<Rightarrow> stream_write stdout m
      | None \<Rightarrow>
          if ascii_message e \<or> stream_encoding stdout = None \<or> stream_errors stdout = Replace
          then Returns ()
          else Unmodelled)"

text \<open>
  \<open>print(*args)\<close>: the arguments are written one after the other (the separators and
  the newline are ASCII and always go through). The result holds the arguments that
  were written, and whether \<open>print\<close> returned or the write of the next one raised.
\<close>

fun py_print :: "stream \<Rightarrow> print_arg list \<Rightarrow> print_arg list \<times> unit outcome" where
  "py_print stdout [] = ([], Returns ())"
| "py_print stdout (a # args) =
     (case write_arg stdout a of
        Returns _ \<Rightarrow> (case py_print stdout args of (written, r) \<Rightarrow> (a # written, r))
      | Raises e \<Rightarrow> ([], Raises e)
      | Unmodelled \<Rightarrow> ([], Unmodelled))"

section \<open>\<open>Agent.run\<close>\<close>

text \<open>
  The remote service, as \<open>client.chat.completions.create\<close> shows it: for a client and a
  request, a response object or an exception. What each \<open>print\<close> wrote is kept, one
  list of arguments for each call, and the requests sent as a list too.
\<close>

type_synonym transport = "client \<Rightarrow> request \<Rightarrow> completion outcome"

record run_result =
  printed :: "print_arg list list"
  sent :: "request list"
  returned :: "py_val outcome"

definition completion_request :: "environ \<Rightarrow> ustring \<Rightarrow> request" where
  "completion_request env prompt =
     \<lparr>extra_body = [],
      model = getenv_default env (ascii ''OPENROUTER_MODEL'') (ascii ''openai/gpt-oss-20b:free''),
      messages = [\<lparr>message_role = ascii ''user'', message_content = prompt\<rparr>]\<rparr>"

text \<open>
  \<open>Agent.run\<close>. The first \<open>print\<close> and the rendering of the prompt stand before the
  \<open>try\<close>, so what they raise leaves \<open>run\<close>; the second \<open>print\<close> stands in the handler,
  so what it raises leaves \<open>run\<close> too.
\<close>

definition run :: "transport \<Rightarrow> environ \<Rightarrow> stream \<Rightarrow> agent \<Rightarrow> run_result" where
  "run transport env stdout self =
     (case py_print stdout [Text (py_str (role self) @ ascii '' is running...'')] of
        (running, Raises e) \<Rightarrow> \<lparr>printed = [running], sent = [], returned = Raises e\<rparr>
      | (running, Unmodelled) \<Rightarrow> \<lparr>printed = [running], sent = [], returned = Unmodelled\<rparr>
      | (running, Returns _) \<Rightarrow>
          (case PromptTemplate_format (prompt_template self)
                  [ascii ''medical_report'' \<mapsto> medical_report self] of
             Raises e \<Rightarrow> \<lparr>printed = [running], sent = [], returned = Raises e\<rparr>
           | Unmodelled \<Rightarrow> \<lparr>printed = [running], sent = [], returned = Unmodelled\<rparr>
           | Returns prompt \<Rightarrow>
               (let req = completion_request env prompt in
                case bind (transport (client self) req) (\<lambda>completion.
                       bind (extract_content completion)
                         (sanitize (stream_encoding stdout))) of
                  Raises e \<Rightarrow>
                    if is_Exception e then
                      (case py_print stdout [Text (ascii ''Error occurred:''), Error e] of
                         (failed, Returns _) \<Rightarrow>
                           \<lparr>printed = [running, failed], sent = [req],
                            returned = Returns PyNone\<rparr>
                       | (failed, Raises e') \<Rightarrow>
                           \<lparr>printed = [running, failed], sent = [req],
                            returned = Raises e'\<rparr>
                       | (failed, Unmodelled) \<Rightarrow>
                           \<lparr>printed = [running, failed], sent = [req],
                            returned = Unmodelled\<rparr>)
                    else \<lparr>printed = [running], sent = [req], returned = Raises e\<rparr>
                | r \<Rightarrow> \<lparr>printed = [running], sent = [req], returned = r\<rparr>)))"


section \<open>Properties of the template formatter\<close>

text \<open>Text without braces is one literal.\<close>

lemma parse_literal:
  assumes "list_all not_brace s" and "s \<noteq> []"
  shows "parse s = Returns [(s, None)]"
proof -
  obtain c cs where s: "s = c # cs" using assms(2) by (cases s) auto
  have all: "\<forall>x\<in>set (c # cs). not_brace x"
    using assms(1) s by (simp add: list_all_iff)
  then have "takeWhile not_brace (c # cs) = c # cs"
    by (simp only: takeWhile_eq_all_conv)
  moreover from all have "dropWhile not_brace (c # cs) = []"
    by (simp only: dropWhile_eq_Nil_conv)
  ultimately show ?thesis
    unfolding s by (simp only: parse.simps Let_def list.case)
qed

text \<open>A character that neither ends a field name nor is refused inside one.\<close>

definition name_char :: "codepoint \<Rightarrow> bool" where
  "name_char c = (c \<noteq> LBRACE \<and> c \<noteq> RBRACE \<and> c \<noteq> LBRACKET \<and> c \<noteq> COLON \<and> c \<noteq> BANG)"

lemma scan_field_name_plain:
  "list_all name_char name \<Longrightarrow>
   scan_field_name (name @ RBRACE # rest) = Returns (name, RBRACE, rest)"
  by (induction name) (auto simp: name_char_def)

lemma parse_field_plain:
  "list_all name_char name \<Longrightarrow>
   parse_field (name @ RBRACE # rest) = Returns (Field name [] None, rest)"
  by (simp add: parse_field_def scan_field_name_plain)

text \<open>Literal text, then one plain field \<open>{name}\<close>, then the rest of the template.\<close>

lemma parse_plain_field:
  assumes pre: "list_all not_brace pre" and name: "list_all name_char name"
  shows "parse (pre @ LBRACE # name @ RBRACE # post) =
         bind (parse post) (\<lambda>ps. Returns ((pre, Some (Field name [] None)) # ps))"
proof -
  let ?r = "name @ RBRACE # post"
  have all: "\<forall>x\<in>set pre. not_brace x" using pre by (simp add: list_all_iff)
  have nb: "\<not> not_brace LBRACE" by (simp add: not_brace_def)
  have tw: "takeWhile not_brace (pre @ LBRACE # ?r) = pre"
    using all nb by (simp add: takeWhile_append2)
  have dw: "dropWhile not_brace (pre @ LBRACE # ?r) = LBRACE # ?r"
    using all nb by (simp add: dropWhile_append2)
  obtain d r' where r: "?r = d # r'" by (cases ?r) auto
  have d: "d \<noteq> LBRACE"
  proof (cases name)
    case Nil
    with r show ?thesis by simp
  next
    case (Cons n ns)
    with r name show ?thesis by (auto simp: name_char_def)
  qed
  obtain c cs where s: "pre @ LBRACE # ?r = c # cs" by (cases "pre @ LBRACE # ?r") auto
  have pf: "parse_field (d # r') = Returns (Field name [] None, post)"
    using parse_field_plain [OF name, of post] r by simp
  have r2: "name @ RBRACE # post = d # r'" using r .
  have "parse (c # cs) =
        bind (parse post) (\<lambda>ps. Returns ((pre, Some (Field name [] None)) # ps))"
    apply (subst parse.simps(2))
    apply (simp only: tw [unfolded s] dw [unfolded s] r2 Let_def list.case)
    apply (simp add: d pf del: parse.simps)
    done
  then show ?thesis by (simp only: s)
qed

text \<open>A template that is literal text around the one field \<open>{name}\<close> renders as the
  text around the value of the keyword \<open>name\<close>.\<close>

lemma format_single_field:
  assumes t: "template pt = pre @ LBRACE # name @ RBRACE # post"
    and pre: "list_all not_brace pre" and post: "list_all not_brace post"
    and name: "list_all name_char name" "name \<noteq> []" "\<not> outside_model_name name"
    and v: "kwargs name = Some v"
  shows "PromptTemplate_format pt kwargs = Returns (pre @ py_str v @ post)"
proof -
  have ff: "format_field kwargs (Field name [] None) = Returns (py_str v)"
    using name v by (simp add: format_field_def)
  show ?thesis
  proof (cases "post = []")
    case True
    then show ?thesis
      using t ff by (simp add: PromptTemplate_format_def parse_plain_field [OF pre name(1)])
  next
    case False
    then show ?thesis
      using t ff
      by (simp add: PromptTemplate_format_def parse_plain_field [OF pre name(1)]
          parse_literal [OF post])
  qed
qed

lemma from_template_single_field:
  assumes pre: "list_all not_brace pre" and post: "list_all not_brace post"
    and name: "list_all name_char name" "\<not> outside_model_name name"
  shows "PromptTemplate_from_template (pre @ LBRACE # name @ RBRACE # post) =
         Returns \<lparr>template = pre @ LBRACE # name @ RBRACE # post\<rparr>"
proof (cases "post = []")
  case True
  then show ?thesis
    using name by (simp add: PromptTemplate_from_template_def parse_plain_field [OF pre name(1)])
next
  case False
  then show ?thesis
    using name
    by (simp add: PromptTemplate_from_template_def parse_plain_field [OF pre name(1)]
        parse_literal [OF post])
qed

text \<open>A template without braces is built as it is and renders as itself.\<close>

lemma from_template_literal:
  assumes "list_all not_brace s"
  shows "PromptTemplate_from_template s = Returns \<lparr>template = s\<rparr>"
proof (cases "s = []")
  case True
  then show ?thesis by (simp add: PromptTemplate_from_template_def)
next
  case False
  then show ?thesis
    by (simp add: PromptTemplate_from_template_def parse_literal [OF assms])
qed

lemma format_literal:
  assumes "list_all not_brace (template pt)"
  shows "PromptTemplate_format pt kwargs = Returns (template pt)"
proof (cases "template pt = []")
  case True
  then show ?thesis by (simp add: PromptTemplate_format_def)
next
  case False
  then show ?thesis
    by (simp add: PromptTemplate_format_def parse_literal [OF assms])
qed


section \<open>The templates of the roles\<close>

definition template_tail :: ustring where
  "template_tail = ascii ''\<newline>                ''"

lemma medical_report_name:
  "list_all name_char (ascii ''medical_report'')"
  "ascii ''medical_report'' \<noteq> []"
  "\<not> outside_model_name (ascii ''medical_report'')"
  by (simp_all add: ascii_def name_char_def outside_model_name_def)

lemma template_tail_literal: "list_all not_brace template_tail"
  by (simp add: template_tail_def ascii_def not_brace_def)

lemma Cardiologist_template_field:
  "dropWhile not_brace Cardiologist_template =
   LBRACE # ascii ''medical_report'' @ RBRACE # template_tail"
  by (simp add: Cardiologist_template_def template_tail_def ascii_def not_brace_def)

lemma Psychologist_template_field:
  "dropWhile not_brace Psychologist_template =
   LBRACE # ascii ''medical_report'' @ RBRACE # template_tail"
  by (simp add: Psychologist_template_def template_tail_def ascii_def not_brace_def)

lemma Pulmonologist_template_field:
  "dropWhile not_brace Pulmonologist_template =
   LBRACE # ascii ''medical_report'' @ RBRACE # template_tail"
  by (simp add: Pulmonologist_template_def template_tail_def ascii_def not_brace_def)

text \<open>A template whose first brace opens the field \<open>{medical_report}\<close>, followed by the
  tail only: it is built as it is, and renders as its text with the report in place of
  the field.\<close>

lemma report_template_split:
  assumes "dropWhile not_brace t = LBRACE # ascii ''medical_report'' @ RBRACE # template_tail"
  shows "t = takeWhile not_brace t @ LBRACE # ascii ''medical_report'' @ RBRACE # template_tail"
  using takeWhile_dropWhile_id [of not_brace t] assms by simp

lemma takeWhile_literal: "list_all not_brace (takeWhile not_brace t)"
  by (auto simp: list_all_iff dest: set_takeWhileD)

lemma report_template_built:
  assumes "dropWhile not_brace t = LBRACE # ascii ''medical_report'' @ RBRACE # template_tail"
  shows "PromptTemplate_from_template t = Returns \<lparr>template = t\<rparr>"
proof -
  have "PromptTemplate_from_template
          (takeWhile not_brace t @ LBRACE # ascii ''medical_report'' @ RBRACE # template_tail) =
        Returns \<lparr>template =
          takeWhile not_brace t @ LBRACE # ascii ''medical_report'' @ RBRACE # template_tail\<rparr>"
    by (rule from_template_single_field
        [OF takeWhile_literal template_tail_literal medical_report_name(1) medical_report_name(3)])
  then show ?thesis
    by (simp only: report_template_split [OF assms, symmetric])
qed

lemma report_template_rendered:
  assumes "dropWhile not_brace t = LBRACE # ascii ''medical_report'' @ RBRACE # template_tail"
    and "kwargs (ascii ''medical_report'') = Some v"
  shows "PromptTemplate_format \<lparr>template = t\<rparr> kwargs =
         Returns (takeWhile not_brace t @ py_str v @ template_tail)"
proof -
  have "template \<lparr>template = t\<rparr> =
        takeWhile not_brace t @ LBRACE # ascii ''medical_report'' @ RBRACE # template_tail"
    using report_template_split [OF assms(1)] by simp
  then show ?thesis
    using takeWhile_literal [of t] template_tail_literal medical_report_name assms(2)
    by (rule format_single_field)
qed

lemma role_names_distinct:
  "ascii ''Cardiologist'' \<noteq> ascii ''MultidisciplinaryTeam''"
  "ascii ''Psychologist'' \<noteq> ascii ''MultidisciplinaryTeam''"
  "ascii ''Pulmonologist'' \<noteq> ascii ''MultidisciplinaryTeam''"
  "ascii ''Cardiologist'' \<noteq> ascii ''Psychologist''"
  "ascii ''Cardiologist'' \<noteq> ascii ''Pulmonologist''"
  "ascii ''Psychologist'' \<noteq> ascii ''Pulmonologist''"
  by (simp_all add: ascii_def)

lemma specialist_templates_lookup:
  "specialist_templates (PyStr (ascii ''Cardiologist'')) = Some Cardiologist_template"
  "specialist_templates (PyStr (ascii ''Psychologist'')) = Some Psychologist_template"
  "specialist_templates (PyStr (ascii ''Pulmonologist'')) = Some Pulmonologist_template"
  using role_names_distinct by (simp_all add: specialist_templates_def)

lemma create_Cardiologist_template:
  "create_prompt_template (PyStr (ascii ''Cardiologist'')) extra =
   Returns \<lparr>template = Cardiologist_template\<rparr>"
  using role_names_distinct
  by (simp add: create_prompt_template_def specialist_templates_lookup
      report_template_built [OF Cardiologist_template_field])

lemma create_Psychologist_template:
  "create_prompt_template (PyStr (ascii ''Psychologist'')) extra =
   Returns \<lparr>template = Psychologist_template\<rparr>"
  using role_names_distinct
  by (simp add: create_prompt_template_def specialist_templates_lookup
      report_template_built [OF Psychologist_template_field])

lemma create_Pulmonologist_template:
  "create_prompt_template (PyStr (ascii ''Pulmonologist'')) extra =
   Returns \<lparr>template = Pulmonologist_template\<rparr>"
  using role_names_distinct
  by (simp add: create_prompt_template_def specialist_templates_lookup
      report_template_built [OF Pulmonologist_template_field])


lemma format_missing_keyword:
  assumes t: "template pt = pre @ LBRACE # name @ RBRACE # post"
    and pre: "list_all not_brace pre" and post: "list_all not_brace post"
    and name: "list_all name_char name" "name \<noteq> []" "\<not> outside_model_name name"
    and v: "kwargs name = None"
  shows "PromptTemplate_format pt kwargs = Raises (KeyError (PyStr name))"
proof -
  have ff: "format_field kwargs (Field name [] None) = Raises (KeyError (PyStr name))"
    using name v by (simp add: format_field_def)
  show ?thesis
  proof (cases "post = []")
    case True
    then show ?thesis
      using t ff by (simp add: PromptTemplate_format_def parse_plain_field [OF pre name(1)])
  next
    case False
    then show ?thesis
      using t ff
      by (simp add: PromptTemplate_format_def parse_plain_field [OF pre name(1)]
          parse_literal [OF post])
  qed
qed

lemma team_text_literal:
  "list_all not_brace team_intro"
  "list_all not_brace team_psychologist_label"
  "list_all not_brace team_pulmonologist_label"
  "list_all not_brace team_outro"
  by (simp_all add: team_intro_def team_psychologist_label_def team_pulmonologist_label_def
      team_outro_def ascii_def not_brace_def)


text \<open>The team's template when no report holds a brace: the whole text is literal, so
  it is built as it is and renders as itself.\<close>

lemma create_team_template_literal:
  assumes "list_all not_brace (py_str (dict_get info (ascii ''cardiologist_report'') (PyStr [])))"
    and "list_all not_brace (py_str (dict_get info (ascii ''psychologist_report'') (PyStr [])))"
    and "list_all not_brace (py_str (dict_get info (ascii ''pulmonologist_report'') (PyStr [])))"
  shows "create_prompt_template (PyStr (ascii ''MultidisciplinaryTeam'')) (Some info) =
         Returns \<lparr>template =
           team_intro
             @ py_str (dict_get info (ascii ''cardiologist_report'') (PyStr []))
             @ team_psychologist_label
             @ py_str (dict_get info (ascii ''psychologist_report'') (PyStr []))
             @ team_pulmonologist_label
             @ py_str (dict_get info (ascii ''pulmonologist_report'') (PyStr []))
             @ team_outro\<rparr>"
proof -
  have "list_all not_brace
          (team_intro
             @ py_str (dict_get info (ascii ''cardiologist_report'') (PyStr []))
             @ team_psychologist_label
             @ py_str (dict_get info (ascii ''psychologist_report'') (PyStr []))
             @ team_pulmonologist_label
             @ py_str (dict_get info (ascii ''pulmonologist_report'') (PyStr []))
             @ team_outro)"
    using assms team_text_literal by simp
  then show ?thesis
    by (simp add: create_prompt_template_def from_template_literal)
qed


lemma parse_field_fails:
  assumes pre: "list_all not_brace pre" and r: "parse_field (d # r') = Raises e"
    and d: "d \<noteq> LBRACE"
  shows "parse (pre @ LBRACE # d # r') = Raises e"
proof -
  have all: "\<forall>x\<in>set pre. not_brace x" using pre by (simp add: list_all_iff)
  have nb: "\<not> not_brace LBRACE" by (simp add: not_brace_def)
  have tw: "takeWhile not_brace (pre @ LBRACE # d # r') = pre"
    using all nb by (simp add: takeWhile_append2)
  have dw: "dropWhile not_brace (pre @ LBRACE # d # r') = LBRACE # d # r'"
    using all nb by (simp add: dropWhile_append2)
  obtain c cs where s: "pre @ LBRACE # d # r' = c # cs"
    by (cases "pre @ LBRACE # d # r'") auto
  have "parse (c # cs) = Raises e"
    apply (subst parse.simps(2))
    apply (simp only: tw [unfolded s] dw [unfolded s] Let_def list.case)
    apply (simp add: d r del: parse.simps)
    done
  then show ?thesis by (simp only: s)
qed

section \<open>Properties of the extraction\<close>

lemma first_choice_cases:
  "first_choice c = Raises AttributeError \<or> first_choice c = Raises IndexError
   \<or> (\<exists>ch. first_choice c = Returns ch)"
  by (cases "choices c") (auto simp: first_choice_def split: list.split)

lemma primary_field_cases:
  "primary_field c = Raises AttributeError \<or> primary_field c = Raises IndexError
   \<or> (\<exists>v. primary_field c = Returns v)"
proof -
  have g: "\<And>a::py_val attribute. getattr a = Raises AttributeError \<or> (\<exists>v. getattr a = Returns v)"
    by (case_tac a) auto
  have h: "\<And>a::message attribute. getattr a = Raises AttributeError \<or> (\<exists>v. getattr a = Returns v)"
    by (case_tac a) auto
  show ?thesis
    using first_choice_cases [of c]
    unfolding primary_field_def
    by (metis bind.simps(1) bind.simps(2) g h)
qed

lemma secondary_field_cases:
  "secondary_field c = Raises AttributeError \<or> secondary_field c = Raises IndexError
   \<or> (\<exists>v. secondary_field c = Returns v)"
proof -
  have g: "\<And>a::py_val attribute. getattr a = Raises AttributeError \<or> (\<exists>v. getattr a = Returns v)"
    by (case_tac a) auto
  show ?thesis
    using first_choice_cases [of c]
    unfolding secondary_field_def
    by (metis bind.simps(1) bind.simps(2) g)
qed


section \<open>Properties of the codecs\<close>

text \<open>A code point in its UTF-8 digits to the base 64.\<close>

lemma split_64: "(c::nat) = c div 64 * 64 + c mod 64"
  by simp

lemma split_4096: "(c::nat) = c div 4096 * 4096 + c div 64 mod 64 * 64 + c mod 64"
proof -
  have "c mod (64 * 64) = 64 * (c div 64 mod 64) + c mod 64"
    by (rule mod_mult2_eq)
  moreover have "c = c div 4096 * 4096 + c mod 4096" by simp
  ultimately show ?thesis by simp
qed

lemma split_262144:
  "(c::nat) = c div 262144 * 262144 + c div 4096 mod 64 * 4096 + c div 64 mod 64 * 64 + c mod 64"
proof -
  have "c mod (4096 * 64) = 4096 * (c div 4096 mod 64) + c mod 4096"
    by (rule mod_mult2_eq)
  moreover have "c mod (64 * 64) = 64 * (c div 64 mod 64) + c mod 64"
    by (rule mod_mult2_eq)
  moreover have "c = c div 262144 * 262144 + c mod 262144" by simp
  ultimately show ?thesis by simp
qed

lemma utf8_decode_1:
  assumes "c < 0x80"
  shows "utf8_decode_replace (c # rest) = c # utf8_decode_replace rest"
  using assms by (subst utf8_decode_replace.simps(2)) simp

lemma utf8_decode_2:
  assumes "0x80 \<le> c" and "c < 0x800"
  shows "utf8_decode_replace ((0xC0 + c div 64) # (0x80 + c mod 64) # rest) =
         c # utf8_decode_replace rest"
proof -
  define a where "a = c div 64"
  define b where "b = c mod 64"
  have c: "c = a * 64 + b" unfolding a_def b_def by (rule split_64)
  have b: "b < 64" unfolding b_def by simp
  have a: "2 \<le> a" "a < 32" using assms c b by linarith+
  have "utf8_decode_replace ((0xC0 + a) # (0x80 + b) # rest) =
        (a * 64 + b) # utf8_decode_replace rest"
    using a b by (subst utf8_decode_replace.simps(2)) (simp add: is_cont_def)
  then have "utf8_decode_replace ((0xC0 + a) # (0x80 + b) # rest) = c # utf8_decode_replace rest"
    by (simp only: c [symmetric])
  then show ?thesis unfolding a_def b_def .
qed

lemma utf8_decode_3:
  assumes "0x800 \<le> c" and "c < 0x10000" and "\<not> (0xD800 \<le> c \<and> c \<le> 0xDFFF)"
  shows "utf8_decode_replace
           ((0xE0 + c div 4096) # (0x80 + c div 64 mod 64) # (0x80 + c mod 64) # rest) =
         c # utf8_decode_replace rest"
proof -
  define a where "a = c div 4096"
  define b where "b = c div 64 mod 64"
  define d where "d = c mod 64"
  have c: "c = a * 4096 + b * 64 + d"
    unfolding a_def b_def d_def by (rule split_4096)
  have bd: "b < 64" "d < 64" unfolding b_def d_def by simp_all
  have a: "a < 16" using assms(2) c by linarith
  have lo: "32 \<le> b" if "a = 0" using that assms(1) c bd by simp
  have sur: "b < 32" if "a = 13" using that assms(3) c bd by simp
  have s3: "second_of_3 (0xE0 + a) (0x80 + b)"
    using a bd lo sur by (auto simp: second_of_3_def is_cont_def)
  have "utf8_decode_replace ((0xE0 + a) # (0x80 + b) # (0x80 + d) # rest) =
        (a * 4096 + b * 64 + d) # utf8_decode_replace rest"
    using a bd s3 by (subst utf8_decode_replace.simps(2)) (simp add: is_cont_def)
  then have "utf8_decode_replace ((0xE0 + a) # (0x80 + b) # (0x80 + d) # rest) =
             c # utf8_decode_replace rest"
    by (simp only: c [symmetric])
  then show ?thesis unfolding a_def b_def d_def .
qed

lemma utf8_decode_4:
  assumes "0x10000 \<le> c" and "c < 0x110000"
  shows "utf8_decode_replace
           ((0xF0 + c div 262144) # (0x80 + c div 4096 mod 64) # (0x80 + c div 64 mod 64)
              # (0x80 + c mod 64) # rest) =
         c # utf8_decode_replace rest"
proof -
  define a where "a = c div 262144"
  define b where "b = c div 4096 mod 64"
  define d where "d = c div 64 mod 64"
  define e where "e = c mod 64"
  have c: "c = a * 262144 + b * 4096 + d * 64 + e"
    unfolding a_def b_def d_def e_def by (rule split_262144)
  have bde: "b < 64" "d < 64" "e < 64" unfolding b_def d_def e_def by simp_all
  have a: "a < 5" using assms(2) c by linarith
  have lo: "16 \<le> b" if "a = 0" using that assms(1) c bde by simp
  have hi: "b < 16" if "a = 4" using that assms(2) c bde by simp
  have s4: "second_of_4 (0xF0 + a) (0x80 + b)"
    using a bde lo hi by (auto simp: second_of_4_def is_cont_def)
  have "utf8_decode_replace ((0xF0 + a) # (0x80 + b) # (0x80 + d) # (0x80 + e) # rest) =
        (a * 262144 + b * 4096 + d * 64 + e) # utf8_decode_replace rest"
    using a bde s4 by (subst utf8_decode_replace.simps(2)) (simp add: is_cont_def)
  then have "utf8_decode_replace ((0xF0 + a) # (0x80 + b) # (0x80 + d) # (0x80 + e) # rest) =
             c # utf8_decode_replace rest"
    by (simp only: c [symmetric])
  then show ?thesis unfolding a_def b_def d_def e_def .
qed

lemma utf8_decode_encode_char:
  assumes "utf8_encode_char c = Some bs"
  shows "utf8_decode_replace (bs @ rest) = c # utf8_decode_replace rest"
proof -
  consider "c < 0x80" | "0x80 \<le> c" "c < 0x800"
    | "0x800 \<le> c" "c < 0x10000" "\<not> (0xD800 \<le> c \<and> c \<le> 0xDFFF)"
    | "0x10000 \<le> c" "c < 0x110000"
    using assms by (auto simp: utf8_encode_char_def split: if_splits)
  then show ?thesis
  proof cases
    case 1
    with assms have "bs = [c]" by (simp add: utf8_encode_char_def)
    with 1 show ?thesis using utf8_decode_1 by simp
  next
    case 2
    with assms have "bs = [0xC0 + c div 64, 0x80 + c mod 64]"
      by (simp add: utf8_encode_char_def)
    with 2 show ?thesis using utf8_decode_2 by simp
  next
    case 3
    with assms have "bs = [0xE0 + c div 4096, 0x80 + c div 64 mod 64, 0x80 + c mod 64]"
      by (simp add: utf8_encode_char_def)
    with 3 show ?thesis using utf8_decode_3 by simp
  next
    case 4
    with assms have "bs = [0xF0 + c div 262144, 0x80 + c div 4096 mod 64,
        0x80 + c div 64 mod 64, 0x80 + c mod 64]"
      by (simp add: utf8_encode_char_def)
    with 4 show ?thesis using utf8_decode_4 by simp
  qed
qed

text \<open>The encoder gives bytes.\<close>

lemma utf8_bytes:
  assumes "utf8_encode_char c = Some bs"
  shows "list_all (\<lambda>b. b < 256) bs"
proof -
  have m: "\<And>n::nat. n mod 64 < 64" by simp
  have d2: "c < 0x800 \<Longrightarrow> c div 64 < 32" by simp
  have d3: "c < 0x10000 \<Longrightarrow> c div 4096 < 16" by simp
  have d4: "c < 0x110000 \<Longrightarrow> c div 262144 < 5" by simp
  show ?thesis
    using assms m [of c] m [of "c div 64"] m [of "c div 4096"] d2 d3 d4
    by (auto simp: utf8_encode_char_def split: if_splits)
qed



text \<open>Every codec decodes what it has encoded for a code point to that code point.\<close>

lemma cp1252_decode_encode_char:
  assumes "cp1252_encode_char c = Some bs"
  shows "\<exists>b. bs = [b] \<and> cp1252_decode_byte b = c"
proof (cases "c < 0x80 \<or> (0xA0 \<le> c \<and> c < 0x100)")
  case True
  with assms have "bs = [c]" by (auto simp: cp1252_encode_char_def)
  moreover from True have "cp1252_decode_byte c = c"
    by (auto simp: cp1252_decode_byte_def)
  ultimately show ?thesis by simp
next
  case False
  with assms obtain b where b: "bs = [b]"
    and m: "map_of (map (\<lambda>(b, u). (u, b)) cp1252_high) c = Some b"
    by (auto simp: cp1252_encode_char_def)
  from m have "(c, b) \<in> set (map (\<lambda>(b, u). (u, b)) cp1252_high)"
    by (rule map_of_SomeD)
  then have "(b, c) \<in> set cp1252_high" by auto
  then have "cp1252_decode_byte b = c"
    unfolding cp1252_high_def cp1252_decode_byte_def by auto
  with b show ?thesis by simp
qed

lemma decode_encode_char:
  assumes "encode_char enc c = Some bs"
  shows "decode_replace enc (bs @ rest) = c # decode_replace enc rest"
proof (cases enc)
  case UTF8
  with assms show ?thesis by (simp add: utf8_decode_encode_char)
next
  case ASCII
  with assms show ?thesis by (auto split: if_splits)
next
  case Latin1
  with assms show ?thesis by (auto split: if_splits)
next
  case CP1252
  with assms cp1252_decode_encode_char [of c bs] show ?thesis by auto
qed

text \<open>The question mark is encoded as itself by every codec.\<close>

lemma encode_question_mark: "encode_char enc 0x3F = Some [0x3F]"
  by (cases enc) (simp_all add: utf8_encode_char_def cp1252_encode_char_def)

lemma decode_question_mark:
  "decode_replace enc (0x3F # rest) = 0x3F # decode_replace enc rest"
  using decode_encode_char [OF encode_question_mark, of enc rest] by simp

text \<open>What \<open>errors='replace'\<close> makes of a code point through encoding and decoding.\<close>

definition replaced :: "encoding \<Rightarrow> codepoint \<Rightarrow> codepoint" where
  "replaced enc c = (case encode_char enc c of None \<Rightarrow> 0x3F | Some _ \<Rightarrow> c)"

definition encodable :: "encoding \<Rightarrow> ustring \<Rightarrow> bool" where
  "encodable enc s = list_all (\<lambda>c. encode_char enc c \<noteq> None) s"

lemma encode_strict:
  "(encodable enc s \<longrightarrow> (\<exists>bs. encode enc Strict s = Returns bs))
   \<and> (\<not> encodable enc s \<longrightarrow> encode enc Strict s = Raises UnicodeEncodeError)"
proof (induction s)
  case Nil
  show ?case by (simp add: encodable_def)
next
  case (Cons c cs)
  show ?case
  proof (cases "encode_char enc c")
    case None
    then show ?thesis by (simp add: encodable_def)
  next
    case (Some bs)
    with Cons show ?thesis by (auto simp: encodable_def)
  qed
qed

lemma encode_replace:
  "\<exists>bs. encode enc Replace s = Returns bs \<and> decode_replace enc bs = map (replaced enc) s"
proof (induction s)
  case Nil
  show ?case by (cases enc) (simp_all add: utf8_decode_replace.simps)
next
  case (Cons c cs)
  then obtain bs where bs: "encode enc Replace cs = Returns bs"
    and d: "decode_replace enc bs = map (replaced enc) cs" by blast
  show ?case
  proof (cases "encode_char enc c")
    case None
    then show ?thesis
      using bs d by (simp add: replaced_def decode_question_mark)
  next
    case (Some cbs)
    then show ?thesis
      using bs d by (simp add: replaced_def decode_encode_char)
  qed
qed

lemma replaced_encodable: "encodable enc (map (replaced enc) s)"
proof -
  have "encode_char enc (replaced enc c) \<noteq> None" for c
    by (cases "encode_char enc c") (simp_all add: replaced_def encode_question_mark)
  then show ?thesis by (simp add: encodable_def list_all_iff)
qed


text \<open>The sanitizer on a string.\<close>

lemma sanitize_string:
  "sanitize stdout_encoding (PyStr s) =
   Returns (PyStr (if encodable (encoding_or_utf8 stdout_encoding) s then s
                   else map (replaced (encoding_or_utf8 stdout_encoding)) s))"
proof -
  let ?enc = "encoding_or_utf8 stdout_encoding"
  show ?thesis
  proof (cases "encodable ?enc s")
    case True
    then obtain bs where "encode ?enc Strict s = Returns bs"
      using encode_strict [of ?enc s] by blast
    with True show ?thesis by (simp add: sanitize_def)
  next
    case False
    then have "encode ?enc Strict s = Raises UnicodeEncodeError"
      using encode_strict [of ?enc s] by blast
    moreover obtain bs where "encode ?enc Replace s = Returns bs"
      and "decode_replace ?enc bs = map (replaced ?enc) s"
      using encode_replace [of ?enc s] by blast
    ultimately show ?thesis using False by (simp add: sanitize_def)
  qed
qed


section \<open>Properties of the standard output\<close>

text \<open>Every codec encodes ASCII text, with either handler, so writing it cannot raise.\<close>

lemma encode_char_ascii: "c < 0x80 \<Longrightarrow> encode_char enc c = Some [c]"
  by (cases enc) (simp_all add: utf8_encode_char_def cp1252_encode_char_def)

lemma encode_ascii: "list_all (\<lambda>c. c < 0x80) s \<Longrightarrow> encode enc errs s = Returns s"
  by (induction s) (simp_all add: encode_char_ascii)

lemma stream_write_ascii: "list_all (\<lambda>c. c < 0x80) s \<Longrightarrow> stream_write stdout s = Returns ()"
  by (simp add: stream_write_def encode_ascii split: option.split)

lemma print_text_ascii:
  "list_all (\<lambda>c. c < 0x80) s \<Longrightarrow> py_print stdout [Text s] = ([Text s], Returns ())"
  by (simp add: stream_write_ascii)

text \<open>The line that announces the role, for the four roles an agent can have.\<close>

lemma print_running:
  assumes "rl \<in> {PyStr (ascii ''Cardiologist''), PyStr (ascii ''Psychologist''),
                 PyStr (ascii ''Pulmonologist''), PyStr (ascii ''MultidisciplinaryTeam'')}"
  shows "py_print stdout [Text (py_str rl @ ascii '' is running...'')] =
         ([Text (py_str rl @ ascii '' is running...'')], Returns ())"
proof -
  have "list_all (\<lambda>c. c < 0x80) (py_str rl @ ascii '' is running...'')"
    using assms by (auto simp: ascii_def)
  then show ?thesis by (rule print_text_ascii)
qed

text \<open>Every agent that \<open>Agent.__init__\<close> returns has one of the four roles.\<close>

lemma constructed_agent_role:
  assumes "Agent_init env report rl extra = Returns self"
  shows "role self \<in> {PyStr (ascii ''Cardiologist''), PyStr (ascii ''Psychologist''),
                      PyStr (ascii ''Pulmonologist''), PyStr (ascii ''MultidisciplinaryTeam'')}"
proof (rule ccontr)
  assume n: "\<not> ?thesis"
  from assms have r: "role self = rl"
    by (auto simp: Agent_init_def Let_def bind_Returns_iff split: if_splits)
  with n have "specialist_templates rl = None"
    by (simp add: specialist_templates_def)
  with n r have "create_prompt_template rl extra = Raises (KeyError rl)"
    by (simp add: create_prompt_template_def)
  with assms show False by (simp add: Agent_init_def)
qed

text \<open>The error line: it is printed whole when the stream takes the text of the
  exception, and up to the exception when the stream refuses that text.\<close>

lemma print_error_line:
  assumes "exception_str e = Some m" and "stream_write stdout m = Returns ()"
  shows "py_print stdout [Text (ascii ''Error occurred:''), Error e] =
         ([Text (ascii ''Error occurred:''), Error e], Returns ())"
proof -
  have "list_all (\<lambda>c. c < 0x80) (ascii ''Error occurred:'')" by (simp add: ascii_def)
  then have "stream_write stdout (ascii ''Error occurred:'') = Returns ()"
    by (rule stream_write_ascii)
  then show ?thesis using assms by simp
qed

lemma print_error_line_refused:
  assumes "exception_str e = Some m" and "stream_write stdout m = Raises e'"
  shows "py_print stdout [Text (ascii ''Error occurred:''), Error e] =
         ([Text (ascii ''Error occurred:'')], Raises e')"
proof -
  have "list_all (\<lambda>c. c < 0x80) (ascii ''Error occurred:'')" by (simp add: ascii_def)
  then have "stream_write stdout (ascii ''Error occurred:'') = Returns ()"
    by (rule stream_write_ascii)
  then show ?thesis using assms by simp
qed

lemma print_error_line_ascii:
  assumes "ascii_message e"
  shows "py_print stdout [Text (ascii ''Error occurred:''), Error e] =
         ([Text (ascii ''Error occurred:''), Error e], Returns ())"
proof -
  have "list_all (\<lambda>c. c < 0x80) (ascii ''Error occurred:'')" by (simp add: ascii_def)
  then have w: "stream_write stdout (ascii ''Error occurred:'') = Returns ()"
    by (rule stream_write_ascii)
  from assms have "exception_str e = None" by (cases e) simp_all
  then show ?thesis using assms w by simp
qed


section \<open>Environments and agents used as concrete instances\<close>

definition env_preferred :: environ where
  "env_preferred = [ascii ''OPENROUTER_API_KEY'' \<mapsto> ascii ''key-openrouter'']"

definition env_with_model :: environ where
  "env_with_model =
     [ascii ''OPENROUTER_API_KEY'' \<mapsto> ascii ''key-openrouter'',
      ascii ''OPENROUTER_MODEL'' \<mapsto> ascii ''vendor/model-x'']"

definition palpitations :: ustring where
  "palpitations = ascii ''Patient reports palpitations''"

definition cardiologist_agent :: agent where
  "cardiologist_agent =
     \<lparr>medical_report = PyStr palpitations, role = PyStr (ascii ''Cardiologist''),
      extra_info = None, prompt_template = \<lparr>template = Cardiologist_template\<rparr>,
      client = \<lparr>base_url = ascii ''https://openrouter.ai/api/v1'',
                api_key = PyStr (ascii ''key-openrouter'')\<rparr>\<rparr>"

definition utf8_stdout :: stream where
  "utf8_stdout = \<lparr>stream_encoding = Some UTF8, stream_errors = Strict\<rparr>"

definition ascii_stdout :: stream where
  "ascii_stdout = \<lparr>stream_encoding = Some ASCII, stream_errors = Strict\<rparr>"

definition cp1252_stdout :: stream where
  "cp1252_stdout = \<lparr>stream_encoding = Some CP1252, stream_errors = Strict\<rparr>"

definition cardiologist_prompt :: ustring where
  "cardiologist_prompt =
     takeWhile not_brace Cardiologist_template @ palpitations @ template_tail"

lemma env_names_distinct:
  "ascii ''OPENROUTER_API_KEY'' \<noteq> ascii ''OPENAI_API_KEY''"
  "ascii ''OPENROUTER_API_KEY'' \<noteq> ascii ''OPENROUTER_MODEL''"
  "ascii ''OPENAI_API_KEY'' \<noteq> ascii ''OPENROUTER_MODEL''"
  by (simp_all add: ascii_def)

lemma Cardiologist_constructed:
  "Cardiologist env_preferred (PyStr palpitations) = Returns cardiologist_agent"
proof -
  have "ascii ''key-openrouter'' \<noteq> []" by (simp add: ascii_def)
  then show ?thesis
    using env_names_distinct
    by (simp add: Cardiologist_def Agent_init_def create_Cardiologist_template env_preferred_def
        getenv_def py_or_def cardiologist_agent_def)
qed

lemma cardiologist_agent_prompt:
  "PromptTemplate_format (prompt_template cardiologist_agent)
     [ascii ''medical_report'' \<mapsto> medical_report cardiologist_agent] =
   Returns cardiologist_prompt"
  unfolding cardiologist_agent_def cardiologist_prompt_def
  by (simp add: report_template_rendered [OF Cardiologist_template_field])

lemma cardiologist_agent_role:
  "role cardiologist_agent \<in>
     {PyStr (ascii ''Cardiologist''), PyStr (ascii ''Psychologist''),
      PyStr (ascii ''Pulmonologist''), PyStr (ascii ''MultidisciplinaryTeam'')}"
  by (simp add: cardiologist_agent_def)

lemma cardiologist_running_line:
  "py_str (role cardiologist_agent) @ ascii '' is running...'' =
   ascii ''Cardiologist is running...''"
  by (simp add: cardiologist_agent_def ascii_def)

section \<open>The claims\<close>

text \<open>
  C7. The model identifier of the completion request is the value of the environment
  variable \<open>OPENROUTER_MODEL\<close> when it is set, and \<open>openai/gpt-oss-20b:free\<close> when it is
  not: whenever \<open>run\<close> gets as far as the request (the agent has one of the four roles,
  as every constructed agent has, so that the line announcing it is printed on every
  stream, and the prompt was rendered), it sends exactly one request, and that is its
  model, whatever the standard output is and whatever the service answers.
\<close>

theorem run_request_model:
  assumes "role self \<in> {PyStr (ascii ''Cardiologist''), PyStr (ascii ''Psychologist''),
                        PyStr (ascii ''Pulmonologist''), PyStr (ascii ''MultidisciplinaryTeam'')}"
    and "PromptTemplate_format (prompt_template self)
           [ascii ''medical_report'' \<mapsto> medical_report self] = Returns prompt"
  shows "map model (sent (run transport env stdout self)) =
         [case env (ascii ''OPENROUTER_MODEL'') of
            Some v \<Rightarrow> v
          | None \<Rightarrow> ascii ''openai/gpt-oss-20b:free'']"
proof -
  let ?req = "completion_request env prompt"
  have m: "model ?req =
           (case env (ascii ''OPENROUTER_MODEL'') of
              Some v \<Rightarrow> v | None \<Rightarrow> ascii ''openai/gpt-oss-20b:free'')"
    by (simp add: completion_request_def getenv_default_def split: option.split)
  have "sent (run transport env stdout self) = [?req]"
    using assms(2)
    by (simp add: run_def print_running [OF assms(1)] Let_def del: py_print.simps
        split: outcome.split prod.split)
  then show ?thesis using m by simp
qed

theorem run_request_model_witness:
  "map model (sent (run (\<lambda>c r. Raises (APIConnectionError [])) env_with_model utf8_stdout
      cardiologist_agent)) = [ascii ''vendor/model-x'']
   \<and> map model (sent (run (\<lambda>c r. Raises (APIConnectionError [])) env_preferred utf8_stdout
      cardiologist_agent)) = [ascii ''openai/gpt-oss-20b:free'']"
  using run_request_model [OF cardiologist_agent_role cardiologist_agent_prompt,
      of _ env_with_model utf8_stdout]
    run_request_model [OF cardiologist_agent_role cardiologist_agent_prompt,
      of _ env_preferred utf8_stdout]
    env_names_distinct
  by (simp add: env_with_model_def env_preferred_def)


text \<open>
  C8. An agent with a role outside Cardiologist, Psychologist, Pulmonologist and
  MultidisciplinaryTeam (\<open>None\<close>, the default, included) is not constructed:
  \<open>Agent.__init__\<close> raises the \<open>KeyError\<close> of the dictionary lookup in
  \<open>create_prompt_template\<close>, whatever the environment holds, so before the API key is
  looked at. Construction takes no transport: no request can have been made, and
  nothing is tried again.
\<close>

theorem unknown_role_not_constructed:
  assumes "rl \<notin> {PyStr (ascii ''Cardiologist''), PyStr (ascii ''Psychologist''),
                 PyStr (ascii ''Pulmonologist''), PyStr (ascii ''MultidisciplinaryTeam'')}"
  shows "create_prompt_template rl extra = Raises (KeyError rl)
         \<and> Agent_init env report rl extra = Raises (KeyError rl)"
proof -
  have "specialist_templates rl = None"
    using assms by (simp add: specialist_templates_def)
  then have "create_prompt_template rl extra = Raises (KeyError rl)"
    using assms by (simp add: create_prompt_template_def)
  then show ?thesis by (simp add: Agent_init_def)
qed

theorem unknown_role_not_constructed_witness:
  "Agent_init env_preferred (PyStr palpitations) (PyStr (ascii ''Dermatologist'')) None =
   Raises (KeyError (PyStr (ascii ''Dermatologist'')))
   \<and> Agent_init env_preferred PyNone PyNone None = Raises (KeyError PyNone)"
proof -
  have a: "PyStr (ascii ''Dermatologist'') \<notin>
           {PyStr (ascii ''Cardiologist''), PyStr (ascii ''Psychologist''),
            PyStr (ascii ''Pulmonologist''), PyStr (ascii ''MultidisciplinaryTeam'')}"
    by (simp add: ascii_def)
  have b: "PyNone \<notin>
           {PyStr (ascii ''Cardiologist''), PyStr (ascii ''Psychologist''),
            PyStr (ascii ''Pulmonologist''), PyStr (ascii ''MultidisciplinaryTeam'')}"
    by simp
  show ?thesis
    using unknown_role_not_constructed [OF a, of None env_preferred "PyStr palpitations"]
      unknown_role_not_constructed [OF b, of None env_preferred PyNone]
    by simp
qed

text \<open>
  C1 fails on the code when the standard output cannot encode the text of the error.
  The handler of \<open>run\<close> prints the exception before it returns, and that \<open>print\<close> is
  not guarded: on a stream that encodes strictly it raises \<open>UnicodeEncodeError\<close> inside
  the handler, and \<open>run\<close> raises instead of returning \<open>None\<close>. So it is for a
  connection error with an accented letter in its message on an ASCII stream, for a
  status error with a Chinese message on a cp1252 stream, and for a message that holds
  a lone surrogate on a UTF-8 stream: the request was sent, \<open>Error occurred:\<close> was
  written, the exception was not. The reply text, on the other path, is sanitized for
  just this reason.
\<close>

definition message_with_accent :: ustring where
  "message_with_accent = ascii ''Connexion refus'' @ [0xE9] @ ascii ''e.''"

definition message_in_chinese :: ustring where
  "message_in_chinese = ascii ''Error code: 429 - '' @ [0x8BF7, 0x6C42, 0x8FC7, 0x591A]"

definition message_with_surrogate :: ustring where
  "message_with_surrogate = ascii ''Bad gateway '' @ [0xD83D]"

theorem run_error_print_raises:
  "run (\<lambda>c r. Raises (APIConnectionError message_with_accent)) env_preferred ascii_stdout
     cardiologist_agent =
   \<lparr>printed = [[Text (ascii ''Cardiologist is running...'')],
               [Text (ascii ''Error occurred:'')]],
    sent = [completion_request env_preferred cardiologist_prompt],
    returned = Raises UnicodeEncodeError\<rparr>
   \<and> run (\<lambda>c r. Raises (APIStatusError 429 message_in_chinese)) env_preferred cp1252_stdout
       cardiologist_agent =
     \<lparr>printed = [[Text (ascii ''Cardiologist is running...'')],
                 [Text (ascii ''Error occurred:'')]],
      sent = [completion_request env_preferred cardiologist_prompt],
      returned = Raises UnicodeEncodeError\<rparr>
   \<and> run (\<lambda>c r. Raises (APIStatusError 502 message_with_surrogate)) env_preferred utf8_stdout
       cardiologist_agent =
     \<lparr>printed = [[Text (ascii ''Cardiologist is running...'')],
                 [Text (ascii ''Error occurred:'')]],
      sent = [completion_request env_preferred cardiologist_prompt],
      returned = Raises UnicodeEncodeError\<rparr>"
proof -
  have a: "stream_write ascii_stdout message_with_accent = Raises UnicodeEncodeError"
    by (simp add: stream_write_def ascii_stdout_def message_with_accent_def ascii_def)
  have b: "stream_write cp1252_stdout message_in_chinese = Raises UnicodeEncodeError"
    by (simp add: stream_write_def cp1252_stdout_def message_in_chinese_def ascii_def
        cp1252_encode_char_def cp1252_high_def)
  have c: "stream_write utf8_stdout message_with_surrogate = Raises UnicodeEncodeError"
    by (simp add: stream_write_def utf8_stdout_def message_with_surrogate_def ascii_def
        utf8_encode_char_def)
  have pa: "py_print ascii_stdout
              [Text (ascii ''Error occurred:''), Error (APIConnectionError message_with_accent)] =
            ([Text (ascii ''Error occurred:'')], Raises UnicodeEncodeError)"
    by (rule print_error_line_refused [OF _ a]) simp
  have pb: "py_print cp1252_stdout
              [Text (ascii ''Error occurred:''), Error (APIStatusError 429 message_in_chinese)] =
            ([Text (ascii ''Error occurred:'')], Raises UnicodeEncodeError)"
    by (rule print_error_line_refused [OF _ b]) simp
  have pc: "py_print utf8_stdout
              [Text (ascii ''Error occurred:''),
               Error (APIStatusError 502 message_with_surrogate)] =
            ([Text (ascii ''Error occurred:'')], Raises UnicodeEncodeError)"
    by (rule print_error_line_refused [OF _ c]) simp
  have ra: "run (\<lambda>c r. Raises (APIConnectionError message_with_accent)) env_preferred
              ascii_stdout cardiologist_agent =
            \<lparr>printed = [[Text (py_str (role cardiologist_agent) @ ascii '' is running...'')],
                        [Text (ascii ''Error occurred:'')]],
             sent = [completion_request env_preferred cardiologist_prompt],
             returned = Raises UnicodeEncodeError\<rparr>"
    using cardiologist_agent_prompt pa
    by (simp add: run_def print_running [OF cardiologist_agent_role] Let_def
        del: py_print.simps)
  have rb: "run (\<lambda>c r. Raises (APIStatusError 429 message_in_chinese)) env_preferred
              cp1252_stdout cardiologist_agent =
            \<lparr>printed = [[Text (py_str (role cardiologist_agent) @ ascii '' is running...'')],
                        [Text (ascii ''Error occurred:'')]],
             sent = [completion_request env_preferred cardiologist_prompt],
             returned = Raises UnicodeEncodeError\<rparr>"
    using cardiologist_agent_prompt pb
    by (simp add: run_def print_running [OF cardiologist_agent_role] Let_def
        del: py_print.simps)
  have rc: "run (\<lambda>c r. Raises (APIStatusError 502 message_with_surrogate)) env_preferred
              utf8_stdout cardiologist_agent =
            \<lparr>printed = [[Text (py_str (role cardiologist_agent) @ ascii '' is running...'')],
                        [Text (ascii ''Error occurred:'')]],
             sent = [completion_request env_preferred cardiologist_prompt],
             returned = Raises UnicodeEncodeError\<rparr>"
    using cardiologist_agent_prompt pc
    by (simp add: run_def print_running [OF cardiologist_agent_role] Let_def
        del: py_print.simps)
  show ?thesis
    using ra rb rc unfolding cardiologist_running_line by simp
qed

text \<open>
  What holds of the handler: when the agent has one of the four roles, the prompt has
  been rendered, the chat-completion call raises an exception that derives from
  \<open>Exception\<close> and carries its message, and the standard output takes that message,
  \<open>run\<close> prints the line \<open><role> is running...\<close>, then \<open>Error occurred:\<close> with the
  exception, and returns \<open>None\<close>. A stream without codec or with \<open>errors='replace'\<close>
  takes every message.
\<close>

theorem run_catches_request_error:
  assumes "role self \<in> {PyStr (ascii ''Cardiologist''), PyStr (ascii ''Psychologist''),
                        PyStr (ascii ''Pulmonologist''), PyStr (ascii ''MultidisciplinaryTeam'')}"
    and "PromptTemplate_format (prompt_template self)
           [ascii ''medical_report'' \<mapsto> medical_report self] = Returns prompt"
    and "transport (client self) (completion_request env prompt) = Raises e"
    and "is_Exception e"
    and "exception_str e = Some m"
    and "stream_write stdout m = Returns ()"
  shows "run transport env stdout self =
         \<lparr>printed = [[Text (py_str (role self) @ ascii '' is running...'')],
                     [Text (ascii ''Error occurred:''), Error e]],
          sent = [completion_request env prompt],
          returned = Returns PyNone\<rparr>"
  using assms(2-4)
  by (simp add: run_def print_running [OF assms(1)] print_error_line [OF assms(5,6)] Let_def
      del: py_print.simps)

theorem run_catches_request_error_witness:
  "run (\<lambda>c r. Raises (APIConnectionError (ascii ''Connection error.''))) env_preferred utf8_stdout
     cardiologist_agent =
   \<lparr>printed = [[Text (ascii ''Cardiologist is running...'')],
               [Text (ascii ''Error occurred:''),
                Error (APIConnectionError (ascii ''Connection error.''))]],
    sent = [completion_request env_preferred cardiologist_prompt],
    returned = Returns PyNone\<rparr>
   \<and> returned (run (\<lambda>c r. Raises (AuthenticationError (ascii ''401''))) env_preferred
        ascii_stdout cardiologist_agent) = Returns PyNone
   \<and> returned (run (\<lambda>c r. Raises (APIConnectionError message_with_accent)) env_preferred
        \<lparr>stream_encoding = Some ASCII, stream_errors = Replace\<rparr> cardiologist_agent) =
       Returns PyNone"
proof -
  have w1: "stream_write utf8_stdout (ascii ''Connection error.'') = Returns ()"
    by (rule stream_write_ascii) (simp add: ascii_def)
  have w2: "stream_write ascii_stdout (ascii ''401'') = Returns ()"
    by (rule stream_write_ascii) (simp add: ascii_def)
  have w3: "stream_write \<lparr>stream_encoding = Some ASCII, stream_errors = Replace\<rparr>
              message_with_accent = Returns ()"
    by (simp add: stream_write_def message_with_accent_def ascii_def)
  show ?thesis
    using run_catches_request_error [OF cardiologist_agent_role cardiologist_agent_prompt _ _ _ w1,
        of "\<lambda>c r. Raises (APIConnectionError (ascii ''Connection error.''))" env_preferred
        "APIConnectionError (ascii ''Connection error.'')"]
      run_catches_request_error [OF cardiologist_agent_role cardiologist_agent_prompt _ _ _ w2,
        of "\<lambda>c r. Raises (AuthenticationError (ascii ''401''))" env_preferred
        "AuthenticationError (ascii ''401'')"]
      run_catches_request_error [OF cardiologist_agent_role cardiologist_agent_prompt _ _ _ w3,
        of "\<lambda>c r. Raises (APIConnectionError message_with_accent)" env_preferred
        "APIConnectionError message_with_accent"]
      cardiologist_running_line
    by simp
qed

text \<open>
  C6. For each of the roles Cardiologist, Psychologist and Pulmonologist the template
  is built, and rendering it with a subject text as \<open>medical_report\<close> (what \<open>run\<close> does)
  gives the text before the placeholder, the subject text as it is, and the text after
  the placeholder; neither of the two holds a brace, so the one placeholder of the
  template is resolved and no other is left.
\<close>

theorem specialist_prompt_holds_report:
  assumes "rl \<in> {ascii ''Cardiologist'', ascii ''Psychologist'', ascii ''Pulmonologist''}"
  shows "\<exists>pt before after.
           create_prompt_template (PyStr rl) extra = Returns pt
           \<and> list_all not_brace before \<and> list_all not_brace after
           \<and> (\<forall>text. PromptTemplate_format pt [ascii ''medical_report'' \<mapsto> PyStr text] =
                  Returns (before @ text @ after))"
proof -
  have shape: "\<And>t. dropWhile not_brace t =
                  LBRACE # ascii ''medical_report'' @ RBRACE # template_tail \<Longrightarrow>
      list_all not_brace (takeWhile not_brace t) \<and> list_all not_brace template_tail
      \<and> (\<forall>text. PromptTemplate_format \<lparr>template = t\<rparr>
                  [ascii ''medical_report'' \<mapsto> PyStr text] =
                Returns (takeWhile not_brace t @ text @ template_tail))"
    using takeWhile_literal template_tail_literal
    by (simp add: report_template_rendered)
  from assms consider "rl = ascii ''Cardiologist''" | "rl = ascii ''Psychologist''"
    | "rl = ascii ''Pulmonologist''" by blast
  then show ?thesis
  proof cases
    case 1
    show ?thesis
      unfolding 1 create_Cardiologist_template
      using shape [OF Cardiologist_template_field] by blast
  next
    case 2
    show ?thesis
      unfolding 2 create_Psychologist_template
      using shape [OF Psychologist_template_field] by blast
  next
    case 3
    show ?thesis
      unfolding 3 create_Pulmonologist_template
      using shape [OF Pulmonologist_template_field] by blast
  qed
qed

theorem specialist_prompt_holds_report_witness:
  "\<exists>pt before after.
     create_prompt_template (PyStr (ascii ''Cardiologist'')) None = Returns pt
     \<and> list_all not_brace before \<and> list_all not_brace after
     \<and> (\<forall>text. PromptTemplate_format pt [ascii ''medical_report'' \<mapsto> PyStr text] =
            Returns (before @ text @ after))"
proof -
  have "ascii ''Cardiologist'' \<in>
        {ascii ''Cardiologist'', ascii ''Psychologist'', ascii ''Pulmonologist''}"
    by simp
  then show ?thesis by (rule specialist_prompt_holds_report)
qed


section \<open>The API key\<close>

definition env_empty_preferred :: environ where
  "env_empty_preferred =
     [ascii ''OPENROUTER_API_KEY'' \<mapsto> [], ascii ''OPENAI_API_KEY'' \<mapsto> ascii ''key-openai'']"

definition env_empty_fallback :: environ where
  "env_empty_fallback = [ascii ''OPENAI_API_KEY'' \<mapsto> []]"

definition env_fallback :: environ where
  "env_fallback = [ascii ''OPENAI_API_KEY'' \<mapsto> ascii ''key-openai'']"

definition env_both :: environ where
  "env_both =
     [ascii ''OPENROUTER_API_KEY'' \<mapsto> ascii ''key-openrouter'',
      ascii ''OPENAI_API_KEY'' \<mapsto> ascii ''key-openai'']"

definition missing_keys_message :: ustring where
  "missing_keys_message =
     ascii ''No API key found. Environment presence: OPENROUTER_API_KEY=False, OPENAI_API_KEY=False. Please set OPENROUTER_API_KEY or OPENAI_API_KEY environment variable (do not paste the key into code).''"

lemma missing_keys_message_eq:
  "ascii ''No API key found. Environment presence: OPENROUTER_API_KEY=''
     @ bool_str False @ ascii '', OPENAI_API_KEY='' @ bool_str False @ ascii ''. ''
     @ ascii ''Please set OPENROUTER_API_KEY or OPENAI_API_KEY environment variable (do not paste the key into code).'' =
   missing_keys_message"
  by (simp add: missing_keys_message_def bool_str_def ascii_def)

lemma key_values:
  "ascii ''key-openai'' \<noteq> []" "ascii ''key-openrouter'' \<noteq> []"
  by (simp_all add: ascii_def)

text \<open>
  C3, as the spec states it, takes a variable that is set for one whose value is used.
  \<open>Agent.__init__\<close> tests the values for truth (\<open>bool(os.getenv(...))\<close>, \<open>a or b\<close>,
  \<open>not api_key\<close>), and a variable set to the empty string is false: with
  \<open>OPENROUTER_API_KEY\<close> set to the empty string and \<open>OPENAI_API_KEY\<close> set, both are set
  and the key is the fallback's; with only \<open>OPENAI_API_KEY\<close> set, to the empty string,
  construction raises.
\<close>

theorem credential_set_but_empty_counterexample:
  "env_empty_preferred (ascii ''OPENROUTER_API_KEY'') = Some []
   \<and> env_empty_preferred (ascii ''OPENAI_API_KEY'') = Some (ascii ''key-openai'')
   \<and> Cardiologist env_empty_preferred (PyStr palpitations) =
       Returns (cardiologist_agent
         \<lparr>client := \<lparr>base_url = ascii ''https://openrouter.ai/api/v1'',
                      api_key = PyStr (ascii ''key-openai'')\<rparr>\<rparr>)
   \<and> PyStr (ascii ''key-openai'') \<noteq> PyStr []
   \<and> env_empty_fallback (ascii ''OPENROUTER_API_KEY'') = None
   \<and> env_empty_fallback (ascii ''OPENAI_API_KEY'') = Some []
   \<and> Cardiologist env_empty_fallback (PyStr palpitations) =
       Raises (RuntimeError missing_keys_message)"
  using env_names_distinct key_values
  by (simp add: Cardiologist_def Agent_init_def create_Cardiologist_template
      env_empty_preferred_def env_empty_fallback_def getenv_def py_or_def
      cardiologist_agent_def missing_keys_message_eq)

text \<open>
  C3, amended. Take a variable as present when it is set to a value that is not the
  empty string. For a role whose template is built: with neither variable present,
  \<open>Agent.__init__\<close> raises \<open>RuntimeError\<close>, and its message is the fixed text that gives
  both as \<open>False\<close>, so no value of the environment is in it; with \<open>OPENAI_API_KEY\<close>
  present and \<open>OPENROUTER_API_KEY\<close> not, the client's key is the value of
  \<open>OPENAI_API_KEY\<close>; with \<open>OPENROUTER_API_KEY\<close> present, the client's key is its value,
  whatever \<open>OPENAI_API_KEY\<close> is.
\<close>

theorem credential_resolution:
  assumes "create_prompt_template rl extra = Returns pt"
  shows "((env (ascii ''OPENROUTER_API_KEY'') = None \<or> env (ascii ''OPENROUTER_API_KEY'') = Some [])
          \<and> (env (ascii ''OPENAI_API_KEY'') = None \<or> env (ascii ''OPENAI_API_KEY'') = Some [])
          \<longrightarrow> Agent_init env report rl extra = Raises (RuntimeError missing_keys_message))
       \<and> ((env (ascii ''OPENROUTER_API_KEY'') = None \<or> env (ascii ''OPENROUTER_API_KEY'') = Some [])
          \<and> env (ascii ''OPENAI_API_KEY'') = Some k \<and> k \<noteq> []
          \<longrightarrow> (\<exists>self. Agent_init env report rl extra = Returns self
                      \<and> api_key (client self) = PyStr k))
       \<and> (env (ascii ''OPENROUTER_API_KEY'') = Some k \<and> k \<noteq> []
          \<longrightarrow> (\<exists>self. Agent_init env report rl extra = Returns self
                      \<and> api_key (client self) = PyStr k))"
proof (intro conjI impI)
  assume "(env (ascii ''OPENROUTER_API_KEY'') = None \<or> env (ascii ''OPENROUTER_API_KEY'') = Some [])
          \<and> (env (ascii ''OPENAI_API_KEY'') = None \<or> env (ascii ''OPENAI_API_KEY'') = Some [])"
  then have "\<not> py_bool (getenv env (ascii ''OPENROUTER_API_KEY''))"
    and "\<not> py_bool (getenv env (ascii ''OPENAI_API_KEY''))"
    by (auto simp: getenv_def)
  then show "Agent_init env report rl extra = Raises (RuntimeError missing_keys_message)"
    using assms by (simp add: Agent_init_def py_or_def missing_keys_message_eq)
next
  assume "(env (ascii ''OPENROUTER_API_KEY'') = None \<or> env (ascii ''OPENROUTER_API_KEY'') = Some [])
          \<and> env (ascii ''OPENAI_API_KEY'') = Some k \<and> k \<noteq> []"
  then have "\<not> py_bool (getenv env (ascii ''OPENROUTER_API_KEY''))"
    and "getenv env (ascii ''OPENAI_API_KEY'') = PyStr k" and "k \<noteq> []"
    by (auto simp: getenv_def)
  then show "\<exists>self. Agent_init env report rl extra = Returns self
                    \<and> api_key (client self) = PyStr k"
    using assms by (simp add: Agent_init_def py_or_def)
next
  assume "env (ascii ''OPENROUTER_API_KEY'') = Some k \<and> k \<noteq> []"
  then have "getenv env (ascii ''OPENROUTER_API_KEY'') = PyStr k" and "k \<noteq> []"
    by (auto simp: getenv_def)
  then show "\<exists>self. Agent_init env report rl extra = Returns self
                    \<and> api_key (client self) = PyStr k"
    using assms by (simp add: Agent_init_def py_or_def)
qed

theorem credential_resolution_witness:
  "Agent_init Map.empty (PyStr palpitations) (PyStr (ascii ''Cardiologist'')) None =
     Raises (RuntimeError missing_keys_message)
   \<and> (\<exists>self. Agent_init env_fallback (PyStr palpitations) (PyStr (ascii ''Cardiologist'')) None =
               Returns self
             \<and> api_key (client self) = PyStr (ascii ''key-openai''))
   \<and> (\<exists>self. Agent_init env_both (PyStr palpitations) (PyStr (ascii ''Cardiologist'')) None =
               Returns self
             \<and> api_key (client self) = PyStr (ascii ''key-openrouter''))"
  using credential_resolution [OF create_Cardiologist_template,
      where env = Map.empty and report = "PyStr palpitations" and extra = None]
    credential_resolution [OF create_Cardiologist_template,
      where env = env_fallback and k = "ascii ''key-openai''" and report = "PyStr palpitations"
        and extra = None]
    credential_resolution [OF create_Cardiologist_template,
      where env = env_both and k = "ascii ''key-openrouter''" and report = "PyStr palpitations"
        and extra = None]
    env_names_distinct key_values
  by (simp add: env_fallback_def env_both_def)


section \<open>The team's template and braces in a report\<close>

text \<open>
  A report with a brace in it: the f-string puts it into the text, and
  \<open>from_template\<close> then reads \<open>{normal}\<close> as a replacement field of the template.
\<close>

definition report_with_braces :: ustring where
  "report_with_braces = ascii ''ECG {normal}''"

definition team_agent_with_braces :: agent where
  "team_agent_with_braces =
     \<lparr>medical_report = PyNone, role = PyStr (ascii ''MultidisciplinaryTeam''),
      extra_info = Some [ascii ''cardiologist_report'' \<mapsto> PyStr report_with_braces,
                         ascii ''psychologist_report'' \<mapsto> PyStr [],
                         ascii ''pulmonologist_report'' \<mapsto> PyStr []],
      prompt_template = \<lparr>template =
        team_intro @ report_with_braces @ team_psychologist_label @ []
          @ team_pulmonologist_label @ [] @ team_outro\<rparr>,
      client = \<lparr>base_url = ascii ''https://openrouter.ai/api/v1'',
                api_key = PyStr (ascii ''key-openrouter'')\<rparr>\<rparr>"

lemma report_names_distinct:
  "ascii ''cardiologist_report'' \<noteq> ascii ''psychologist_report''"
  "ascii ''cardiologist_report'' \<noteq> ascii ''pulmonologist_report''"
  "ascii ''psychologist_report'' \<noteq> ascii ''pulmonologist_report''"
  by (simp_all add: ascii_def)

lemma normal_name:
  "list_all name_char (ascii ''normal'')" "ascii ''normal'' \<noteq> []"
  "\<not> outside_model_name (ascii ''normal'')"
  "ascii ''normal'' \<noteq> ascii ''medical_report''"
  by (simp_all add: ascii_def name_char_def outside_model_name_def)

lemma team_template_with_braces_split:
  "team_intro @ report_with_braces @ team_psychologist_label @ []
     @ team_pulmonologist_label @ [] @ team_outro =
   (team_intro @ ascii ''ECG '') @ LBRACE # ascii ''normal'' @ RBRACE
     # (team_psychologist_label @ team_pulmonologist_label @ team_outro)"
  by (simp add: report_with_braces_def ascii_def)

lemma team_template_with_braces_literals:
  "list_all not_brace (team_intro @ ascii ''ECG '')"
  "list_all not_brace (team_psychologist_label @ team_pulmonologist_label @ team_outro)"
  using team_text_literal by (simp_all add: ascii_def not_brace_def)

lemma team_with_braces_constructed:
  "MultidisciplinaryTeam env_preferred (PyStr report_with_braces) (PyStr []) (PyStr []) =
   Returns team_agent_with_braces"
proof -
  have built: "PromptTemplate_from_template
      (team_intro @ report_with_braces @ team_psychologist_label @ []
         @ team_pulmonologist_label @ [] @ team_outro) =
    Returns \<lparr>template = team_intro @ report_with_braces @ team_psychologist_label @ []
         @ team_pulmonologist_label @ [] @ team_outro\<rparr>"
    unfolding team_template_with_braces_split
    by (rule from_template_single_field
        [OF team_template_with_braces_literals normal_name(1) normal_name(3)])
  have created: "create_prompt_template (PyStr (ascii ''MultidisciplinaryTeam''))
      (Some [ascii ''cardiologist_report'' \<mapsto> PyStr report_with_braces,
             ascii ''psychologist_report'' \<mapsto> PyStr [],
             ascii ''pulmonologist_report'' \<mapsto> PyStr []]) =
    Returns \<lparr>template = team_intro @ report_with_braces @ team_psychologist_label @ []
         @ team_pulmonologist_label @ [] @ team_outro\<rparr>"
    using report_names_distinct built
    by (simp add: create_prompt_template_def dict_get_def)
  show ?thesis
    using env_names_distinct key_values
    by (simp add: MultidisciplinaryTeam_def Agent_init_def created env_preferred_def getenv_def
        py_or_def team_agent_with_braces_def)
qed

lemma team_with_braces_render:
  "PromptTemplate_format (prompt_template team_agent_with_braces)
     [ascii ''medical_report'' \<mapsto> medical_report team_agent_with_braces] =
   Raises (KeyError (PyStr (ascii ''normal'')))"
proof -
  have t: "template (prompt_template team_agent_with_braces) =
           (team_intro @ ascii ''ECG '') @ LBRACE # ascii ''normal'' @ RBRACE
             # (team_psychologist_label @ team_pulmonologist_label @ team_outro)"
    using team_template_with_braces_split by (simp add: team_agent_with_braces_def)
  have k: "[ascii ''medical_report'' \<mapsto> medical_report team_agent_with_braces]
             (ascii ''normal'') = None"
    using normal_name(4) by simp
  show ?thesis
    using t team_template_with_braces_literals normal_name(1-3) k
    by (rule format_missing_keyword)
qed

lemma team_agent_with_braces_role:
  "role team_agent_with_braces \<in>
     {PyStr (ascii ''Cardiologist''), PyStr (ascii ''Psychologist''),
      PyStr (ascii ''Pulmonologist''), PyStr (ascii ''MultidisciplinaryTeam'')}"
  by (simp add: team_agent_with_braces_def)

text \<open>
  C10. \<open>run\<close> renders the prompt before its \<open>try\<close>: when rendering raises, \<open>run\<close> raises
  the same exception; nothing is sent, no error line is printed, and \<open>None\<close> is not
  returned, whatever the standard output is. This is for an agent with one of the four
  roles, as every constructed agent has: the line announcing it is printed on every
  stream. The team agent built from a report with braces is such an agent.
\<close>

theorem run_propagates_render_error:
  assumes "role self \<in> {PyStr (ascii ''Cardiologist''), PyStr (ascii ''Psychologist''),
                        PyStr (ascii ''Pulmonologist''), PyStr (ascii ''MultidisciplinaryTeam'')}"
    and "PromptTemplate_format (prompt_template self)
           [ascii ''medical_report'' \<mapsto> medical_report self] = Raises e"
  shows "run transport env stdout self =
         \<lparr>printed = [[Text (py_str (role self) @ ascii '' is running...'')]],
          sent = [],
          returned = Raises e\<rparr>"
  using assms(2) by (simp add: run_def print_running [OF assms(1)] del: py_print.simps)

theorem run_propagates_render_error_witness:
  "MultidisciplinaryTeam env_preferred (PyStr report_with_braces) (PyStr []) (PyStr []) =
     Returns team_agent_with_braces
   \<and> run (\<lambda>c r. Raises (APIConnectionError [])) env_preferred utf8_stdout
       team_agent_with_braces =
     \<lparr>printed = [[Text (ascii ''MultidisciplinaryTeam is running...'')]],
      sent = [],
      returned = Raises (KeyError (PyStr (ascii ''normal'')))\<rparr>"
proof -
  have "py_str (role team_agent_with_braces) @ ascii '' is running...'' =
        ascii ''MultidisciplinaryTeam is running...''"
    by (simp add: team_agent_with_braces_def ascii_def)
  then show ?thesis
    using run_propagates_render_error [OF team_agent_with_braces_role team_with_braces_render,
        of "\<lambda>c r. Raises (APIConnectionError [])" env_preferred utf8_stdout]
      team_with_braces_constructed
    by simp
qed


text \<open>
  C4 fails on the code for a report that holds a brace. The team's constructor puts
  the three reports into the text with an f-string and hands the result to
  \<open>from_template\<close>, which reads it as a template: for the cardiologist's report
  \<open>ECG {normal}\<close> the agent is built, and \<open>run\<close> raises \<open>KeyError\<close> for the keyword
  \<open>normal\<close> whatever the service would answer and whatever the standard output is;
  for the report \<open>{\<close> the constructor
  itself raises \<open>ValueError\<close>. The specialists' reports go through the keyword
  \<open>medical_report\<close> and are rendered as they are (C6).
\<close>

theorem team_report_with_braces_fails:
  "MultidisciplinaryTeam env_preferred (PyStr (ascii ''ECG {normal}'')) (PyStr []) (PyStr []) =
     Returns team_agent_with_braces
   \<and> returned (run transport env_preferred stdout team_agent_with_braces) =
     Raises (KeyError (PyStr (ascii ''normal'')))
   \<and> MultidisciplinaryTeam env (PyStr (ascii ''{'')) (PyStr []) (PyStr []) = Raises ValueError"
proof -
  have "team_psychologist_label @ team_pulmonologist_label @ team_outro =
        10 # tl (team_psychologist_label @ team_pulmonologist_label @ team_outro)"
    by (simp add: team_psychologist_label_def ascii_def)
  then obtain r' where r': "team_psychologist_label @ team_pulmonologist_label @ team_outro = 10 # r'"
    by blast
  have pf: "parse_field (10 # r') = Raises ValueError"
    unfolding r' [symmetric]
    by (simp add: parse_field_def team_psychologist_label_def team_pulmonologist_label_def
        team_outro_def ascii_def)
  have "parse (team_intro @ LBRACE # 10 # r') = Raises ValueError"
    by (rule parse_field_fails [OF team_text_literal(1) pf]) simp
  then have "parse (team_intro @ ascii ''{'' @ team_psychologist_label @ []
                      @ team_pulmonologist_label @ [] @ team_outro) = Raises ValueError"
    using r' by (simp add: ascii_def)
  then have "create_prompt_template (PyStr (ascii ''MultidisciplinaryTeam''))
      (Some [ascii ''cardiologist_report'' \<mapsto> PyStr (ascii ''{''),
             ascii ''psychologist_report'' \<mapsto> PyStr [],
             ascii ''pulmonologist_report'' \<mapsto> PyStr []]) = Raises ValueError"
    using report_names_distinct
    by (simp add: create_prompt_template_def dict_get_def PromptTemplate_from_template_def)
  then have "MultidisciplinaryTeam env (PyStr (ascii ''{'')) (PyStr []) (PyStr []) =
             Raises ValueError"
    by (simp add: MultidisciplinaryTeam_def Agent_init_def)
  moreover have "returned (run transport env_preferred stdout team_agent_with_braces) =
                 Raises (KeyError (PyStr (ascii ''normal'')))"
    using team_with_braces_render
    by (simp add: run_def print_running [OF team_agent_with_braces_role] del: py_print.simps)
  ultimately show ?thesis
    using team_with_braces_constructed by (simp add: report_with_braces_def)
qed

text \<open>
  C5. The reply text is the first choice's \<open>message.content\<close> when reading it succeeds;
  when that raises, the first choice's \<open>text\<close> when reading it succeeds; when both
  raise, \<open>str\<close> of the whole response. Reading either field gives a value or raises
  (nothing else), so the extraction always returns.
\<close>

theorem extract_content_three_tiers:
  "(primary_field c = Returns v \<longrightarrow> extract_content c = Returns v)
   \<and> ((\<exists>e. primary_field c = Raises e) \<and> secondary_field c = Returns v
        \<longrightarrow> extract_content c = Returns v)
   \<and> ((\<exists>e. primary_field c = Raises e) \<and> (\<exists>e. secondary_field c = Raises e)
        \<longrightarrow> extract_content c = Returns (PyStr (completion_str c)))
   \<and> primary_field c \<noteq> Unmodelled \<and> secondary_field c \<noteq> Unmodelled
   \<and> (\<exists>w. extract_content c = Returns w)"
proof -
  have p: "primary_field c = Raises AttributeError \<or> primary_field c = Raises IndexError
           \<or> (\<exists>w. primary_field c = Returns w)"
    by (rule primary_field_cases)
  have s: "secondary_field c = Raises AttributeError \<or> secondary_field c = Raises IndexError
           \<or> (\<exists>w. secondary_field c = Returns w)"
    by (rule secondary_field_cases)
  from p s show ?thesis
    by (auto simp: extract_content_def)
qed

definition reply_text :: ustring where
  "reply_text = ascii ''Possible arrhythmia. Recommend Holter monitor.''"

definition response_with_content :: completion where
  "response_with_content =
     \<lparr>choices = Attr [\<lparr>choice_message = Attr \<lparr>content = Attr (PyStr reply_text)\<rparr>,
                       choice_text = Missing\<rparr>],
      completion_str = ascii ''ChatCompletion(...)''\<rparr>"

definition response_with_text :: completion where
  "response_with_text =
     \<lparr>choices = Attr [\<lparr>choice_message = Missing, choice_text = Attr (PyStr reply_text)\<rparr>],
      completion_str = ascii ''Completion(...)''\<rparr>"

definition response_without_choices :: completion where
  "response_without_choices =
     \<lparr>choices = Attr [], completion_str = ascii ''ChatCompletion(choices=[])''\<rparr>"

theorem extract_content_three_tiers_witness:
  "primary_field response_with_content = Returns (PyStr reply_text)
   \<and> extract_content response_with_content = Returns (PyStr reply_text)
   \<and> primary_field response_with_text = Raises AttributeError
   \<and> secondary_field response_with_text = Returns (PyStr reply_text)
   \<and> extract_content response_with_text = Returns (PyStr reply_text)
   \<and> primary_field response_without_choices = Raises IndexError
   \<and> secondary_field response_without_choices = Raises IndexError
   \<and> extract_content response_without_choices =
       Returns (PyStr (ascii ''ChatCompletion(choices=[])''))"
proof -
  have a: "primary_field response_with_content = Returns (PyStr reply_text)"
    by (simp add: primary_field_def first_choice_def response_with_content_def)
  have b: "primary_field response_with_text = Raises AttributeError"
    "secondary_field response_with_text = Returns (PyStr reply_text)"
    by (simp_all add: primary_field_def secondary_field_def first_choice_def
        response_with_text_def)
  have c: "primary_field response_without_choices = Raises IndexError"
    "secondary_field response_without_choices = Raises IndexError"
    by (simp_all add: primary_field_def secondary_field_def first_choice_def
        response_without_choices_def)
  have d: "completion_str response_without_choices = ascii ''ChatCompletion(choices=[])''"
    by (simp add: response_without_choices_def)
  show ?thesis
    using extract_content_three_tiers [of response_with_content "PyStr reply_text"]
      extract_content_three_tiers [of response_with_text "PyStr reply_text"]
      extract_content_three_tiers [of response_without_choices]
      a b c d
    by simp
qed


section \<open>The sanitizer\<close>

definition text_with_surrogate :: ustring where
  "text_with_surrogate = [0x41, 0xD83D, 0x20AC, 0x1F600]"



lemma str_encode_strict:
  "(encodable enc s \<longrightarrow> (\<exists>bs. str_encode (PyStr s) enc Strict = Returns bs))
   \<and> (\<not> encodable enc s \<longrightarrow> str_encode (PyStr s) enc Strict = Raises UnicodeEncodeError)"
  using encode_strict [of enc s] by simp



text \<open>
  C9. Sanitizing the result of the sanitizer gives that result again, for every text
  and each of the four codecs of the standard output; and a text of which the codec can encode
  every code point is returned unchanged.
\<close>

theorem sanitize_idempotent:
  "bind (sanitize stdout_encoding (PyStr s)) (sanitize stdout_encoding) =
     sanitize stdout_encoding (PyStr s)
   \<and> (list_all (\<lambda>c. encode_char (encoding_or_utf8 stdout_encoding) c \<noteq> None) s
        \<longrightarrow> sanitize stdout_encoding (PyStr s) = Returns (PyStr s))"
proof -
  let ?enc = "encoding_or_utf8 stdout_encoding"
  have "encodable ?enc (if encodable ?enc s then s else map (replaced ?enc) s)"
    using replaced_encodable [of ?enc s] by simp
  then have "sanitize stdout_encoding
               (PyStr (if encodable ?enc s then s else map (replaced ?enc) s)) =
             Returns (PyStr (if encodable ?enc s then s else map (replaced ?enc) s))"
    by (simp only: sanitize_string if_True)
  then have "bind (sanitize stdout_encoding (PyStr s)) (sanitize stdout_encoding) =
             sanitize stdout_encoding (PyStr s)"
    by (simp only: sanitize_string [of stdout_encoding s] bind.simps)
  moreover have "sanitize stdout_encoding (PyStr s) = Returns (PyStr s)"
    if "list_all (\<lambda>c. encode_char ?enc c \<noteq> None) s"
    using that by (simp add: sanitize_string encodable_def)
  ultimately show ?thesis by simp
qed

theorem sanitize_idempotent_witness:
  "sanitize None (PyStr text_with_surrogate) = Returns (PyStr [0x41, 0x3F, 0x20AC, 0x1F600])
   \<and> sanitize None (PyStr [0x41, 0x3F, 0x20AC, 0x1F600]) =
       Returns (PyStr [0x41, 0x3F, 0x20AC, 0x1F600])
   \<and> bind (sanitize None (PyStr text_with_surrogate)) (sanitize None) =
       Returns (PyStr [0x41, 0x3F, 0x20AC, 0x1F600])"
proof -
  have enc: "encoding_or_utf8 None = UTF8" by (simp add: encoding_or_utf8_def)
  have ok: "list_all (\<lambda>c. encode_char (encoding_or_utf8 None) c \<noteq> None)
              [0x41, 0x3F, 0x20AC, 0x1F600]"
    by (simp add: enc utf8_encode_char_def)
  have first: "sanitize None (PyStr text_with_surrogate) =
               Returns (PyStr [0x41, 0x3F, 0x20AC, 0x1F600])"
    by (simp add: sanitize_string enc encodable_def replaced_def text_with_surrogate_def
        utf8_encode_char_def)
  show ?thesis
    using sanitize_idempotent [of None text_with_surrogate]
      sanitize_idempotent [of None "[0x41, 0x3F, 0x20AC, 0x1F600]"] ok first
    by simp
qed


section \<open>Further properties of \<open>run\<close> and of the team's template\<close>

text \<open>
  When no report of the team holds a brace, the template is built and renders as the
  team's text with the three reports in their places, whatever \<open>medical_report\<close> is
  given; a report that is missing from the mapping is the empty string there.
\<close>

theorem team_prompt_without_braces:
  assumes "list_all not_brace (py_str (dict_get info (ascii ''cardiologist_report'') (PyStr [])))"
    and "list_all not_brace (py_str (dict_get info (ascii ''psychologist_report'') (PyStr [])))"
    and "list_all not_brace (py_str (dict_get info (ascii ''pulmonologist_report'') (PyStr [])))"
  shows "\<exists>pt. create_prompt_template (PyStr (ascii ''MultidisciplinaryTeam'')) (Some info) =
                Returns pt
              \<and> PromptTemplate_format pt [ascii ''medical_report'' \<mapsto> report] =
                Returns
                  (team_intro
                     @ py_str (dict_get info (ascii ''cardiologist_report'') (PyStr []))
                     @ team_psychologist_label
                     @ py_str (dict_get info (ascii ''psychologist_report'') (PyStr []))
                     @ team_pulmonologist_label
                     @ py_str (dict_get info (ascii ''pulmonologist_report'') (PyStr []))
                     @ team_outro)"
proof -
  let ?t = "team_intro
              @ py_str (dict_get info (ascii ''cardiologist_report'') (PyStr []))
              @ team_psychologist_label
              @ py_str (dict_get info (ascii ''psychologist_report'') (PyStr []))
              @ team_pulmonologist_label
              @ py_str (dict_get info (ascii ''pulmonologist_report'') (PyStr []))
              @ team_outro"
  have lit: "list_all not_brace (template \<lparr>template = ?t\<rparr>)"
    using assms team_text_literal by simp
  have "PromptTemplate_format \<lparr>template = ?t\<rparr> [ascii ''medical_report'' \<mapsto> report] =
        Returns (template \<lparr>template = ?t\<rparr>)"
    using lit by (rule format_literal)
  then show ?thesis
    using create_team_template_literal [OF assms] by simp
qed

theorem team_prompt_without_braces_witness:
  "\<exists>pt. create_prompt_template (PyStr (ascii ''MultidisciplinaryTeam''))
           (Some [ascii ''cardiologist_report'' \<mapsto> PyStr reply_text]) = Returns pt
        \<and> PromptTemplate_format pt [ascii ''medical_report'' \<mapsto> PyNone] =
            Returns (team_intro @ reply_text @ team_psychologist_label @ []
                       @ team_pulmonologist_label @ [] @ team_outro)"
proof -
  let ?info = "[ascii ''cardiologist_report'' \<mapsto> PyStr reply_text]"
  have c: "py_str (dict_get ?info (ascii ''cardiologist_report'') (PyStr [])) = reply_text"
    by (simp add: dict_get_def)
  have p: "py_str (dict_get ?info (ascii ''psychologist_report'') (PyStr [])) = []"
    using report_names_distinct by (simp add: dict_get_def)
  have q: "py_str (dict_get ?info (ascii ''pulmonologist_report'') (PyStr [])) = []"
    using report_names_distinct by (simp add: dict_get_def)
  have r: "list_all not_brace reply_text"
    by (simp add: reply_text_def ascii_def not_brace_def)
  have a1: "list_all not_brace (py_str (dict_get ?info (ascii ''cardiologist_report'') (PyStr [])))"
    unfolding c by (rule r)
  have a2: "list_all not_brace (py_str (dict_get ?info (ascii ''psychologist_report'') (PyStr [])))"
    unfolding p by simp
  have a3: "list_all not_brace (py_str (dict_get ?info (ascii ''pulmonologist_report'') (PyStr [])))"
    unfolding q by simp
  show ?thesis
    using team_prompt_without_braces [OF a1 a2 a3, of PyNone]
    unfolding c p q .
qed

text \<open>
  When the prompt has been rendered, the service answers with a response whose first
  choice has a string as \<open>message.content\<close>, and the standard output's codec encodes
  that string, \<open>run\<close> returns exactly that string; it has printed the one line
  \<open><role> is running...\<close> and sent the one request.
\<close>

theorem run_returns_reply:
  assumes "role self \<in> {PyStr (ascii ''Cardiologist''), PyStr (ascii ''Psychologist''),
                        PyStr (ascii ''Pulmonologist''), PyStr (ascii ''MultidisciplinaryTeam'')}"
    and "PromptTemplate_format (prompt_template self)
             [ascii ''medical_report'' \<mapsto> medical_report self] = Returns prompt"
    and "transport (client self) (completion_request env prompt) = Returns response"
    and "primary_field response = Returns (PyStr s)"
    and "str_encode (PyStr s) (encoding_or_utf8 (stream_encoding stdout)) Strict = Returns bs"
  shows "run transport env stdout self =
         \<lparr>printed = [[Text (py_str (role self) @ ascii '' is running...'')]],
          sent = [completion_request env prompt],
          returned = Returns (PyStr s)\<rparr>"
proof -
  have e: "extract_content response = Returns (PyStr s)"
    using assms(4) by (simp add: extract_content_def)
  have "encodable (encoding_or_utf8 (stream_encoding stdout)) s"
    using assms(5) str_encode_strict [of "encoding_or_utf8 (stream_encoding stdout)" s] by auto
  then have "sanitize (stream_encoding stdout) (PyStr s) = Returns (PyStr s)"
    by (simp add: sanitize_string)
  then show ?thesis
    using assms(2,3) e
    by (simp add: run_def print_running [OF assms(1)] Let_def del: py_print.simps)
qed

theorem run_returns_reply_witness:
  "run (\<lambda>c r. Returns response_with_content) env_preferred utf8_stdout cardiologist_agent =
   \<lparr>printed = [[Text (py_str (role cardiologist_agent) @ ascii '' is running...'')]],
    sent = [completion_request env_preferred cardiologist_prompt],
    returned = Returns (PyStr reply_text)\<rparr>"
proof -
  have p: "primary_field response_with_content = Returns (PyStr reply_text)"
    by (simp add: primary_field_def first_choice_def response_with_content_def)
  have s: "str_encode (PyStr reply_text) (encoding_or_utf8 (stream_encoding utf8_stdout)) Strict =
           Returns reply_text"
    by (simp add: encoding_or_utf8_def utf8_stdout_def reply_text_def ascii_def
        utf8_encode_char_def)
  show ?thesis
    by (rule run_returns_reply [OF cardiologist_agent_role cardiologist_agent_prompt _ p s]) simp
qed

text \<open>
  When the first choice's \<open>message.content\<close> is \<open>None\<close> (the read succeeds), the
  sanitizer raises \<open>AttributeError\<close> in its \<open>try\<close> and again in its handler; the outer
  handler of \<open>run\<close> catches it, so \<open>run\<close> prints the error (the interpreter's message
  for it is ASCII, which every stream takes) and returns \<open>None\<close>.
\<close>

theorem run_content_none:
  assumes "role self \<in> {PyStr (ascii ''Cardiologist''), PyStr (ascii ''Psychologist''),
                        PyStr (ascii ''Pulmonologist''), PyStr (ascii ''MultidisciplinaryTeam'')}"
    and "PromptTemplate_format (prompt_template self)
             [ascii ''medical_report'' \<mapsto> medical_report self] = Returns prompt"
    and "transport (client self) (completion_request env prompt) = Returns response"
    and "primary_field response = Returns PyNone"
  shows "sanitize (stream_encoding stdout) PyNone = Raises AttributeError
         \<and> run transport env stdout self =
           \<lparr>printed = [[Text (py_str (role self) @ ascii '' is running...'')],
                       [Text (ascii ''Error occurred:''), Error AttributeError]],
            sent = [completion_request env prompt],
            returned = Returns PyNone\<rparr>"
proof -
  have e: "extract_content response = Returns PyNone"
    using assms(4) by (simp add: extract_content_def)
  have s: "sanitize (stream_encoding stdout) PyNone = Raises AttributeError"
    by (simp add: sanitize_def)
  have p: "py_print stdout [Text (ascii ''Error occurred:''), Error AttributeError] =
           ([Text (ascii ''Error occurred:''), Error AttributeError], Returns ())"
    by (rule print_error_line_ascii) simp
  show ?thesis
    using assms(2,3) e s p
    by (simp add: run_def print_running [OF assms(1)] Let_def del: py_print.simps)
qed

definition response_with_none :: completion where
  "response_with_none =
     \<lparr>choices = Attr [\<lparr>choice_message = Attr \<lparr>content = Attr PyNone\<rparr>,
                       choice_text = Missing\<rparr>],
      completion_str = ascii ''ChatCompletion(...)''\<rparr>"

theorem run_content_none_witness:
  "run (\<lambda>c r. Returns response_with_none) env_preferred utf8_stdout cardiologist_agent =
   \<lparr>printed = [[Text (py_str (role cardiologist_agent) @ ascii '' is running...'')],
               [Text (ascii ''Error occurred:''), Error AttributeError]],
    sent = [completion_request env_preferred cardiologist_prompt],
    returned = Returns PyNone\<rparr>"
proof -
  have p: "primary_field response_with_none = Returns PyNone"
    by (simp add: primary_field_def first_choice_def response_with_none_def)
  have t: "(\<lambda>c r. Returns response_with_none) (client cardiologist_agent)
             (completion_request env_preferred cardiologist_prompt) = Returns response_with_none"
    by simp
  show ?thesis
    using run_content_none [OF cardiologist_agent_role cardiologist_agent_prompt t p,
        of utf8_stdout]
    by simp
qed

end
